theory Spec2Isabelle
  imports Main "HOL-Library.Sublist"
begin

section \<open>Exceptions, strings and observable effects\<close>

text \<open>
  The program is \<^verbatim>\<open>main.py\<close>: a scraper (\<^verbatim>\<open>TwitterScraper\<close>), a classifier
  (\<^verbatim>\<open>is_buy_signal\<close>) and a cycle orchestrator (\<^verbatim>\<open>check_influencers\<close>).
  Every handler of the program is \<^verbatim>\<open>except Exception\<close> or narrower, so the model's
  exceptions are the instances of Python's \<^verbatim>\<open>Exception\<close>. Each constructor is one
  class that the handlers of the program can tell apart; \<open>OtherException\<close> stands for an
  instance of any class that derives from none of the classes the handlers name.
  \<^verbatim>\<open>RetryError\<close> is tenacity's wrapper around the exception of the last attempt.
\<close>

datatype py_exc =
    NoSuchElementException
  | WebDriverException
  | ValueError
  | JSONDecodeError
  | IndexError
  | AttributeError
  | TypeError
  | RuntimeError
  | OSError
  | gaierror
  | ConnectionRefusedError
  | ConnectError
  | ConnectTimeout
  | ReadTimeout
  | WriteTimeout
  | PoolTimeout
  | ReadError
  | WriteError
  | CloseError
  | LocalProtocolError
  | RemoteProtocolError
  | ProxyError
  | UnsupportedProtocol
  | DecodingError
  | TooManyRedirects
  | TelegramError
  | OtherException string
  | RetryError py_exc

text \<open>\<^verbatim>\<open>isinstance\<close> tests, following the class trees of selenium, httpx and the
  standard library: \<^verbatim>\<open>JSONDecodeError\<close> derives from \<^verbatim>\<open>ValueError\<close>;
  \<^verbatim>\<open>socket.gaierror\<close> and \<^verbatim>\<open>ConnectionRefusedError\<close> from \<^verbatim>\<open>OSError\<close>; the four
  timeouts from \<^verbatim>\<open>httpx.TimeoutException\<close>; and every httpx class of the list, from
  \<^verbatim>\<open>ConnectError\<close> to \<^verbatim>\<open>TooManyRedirects\<close>, from \<^verbatim>\<open>httpx.RequestError\<close>.\<close>

fun is_NoSuchElementException :: "py_exc \<Rightarrow> bool" where
  "is_NoSuchElementException NoSuchElementException = True"
| "is_NoSuchElementException _ = False"

fun is_ValueError :: "py_exc \<Rightarrow> bool" where
  "is_ValueError ValueError = True"
| "is_ValueError JSONDecodeError = True"
| "is_ValueError _ = False"

fun is_OSError :: "py_exc \<Rightarrow> bool" where
  "is_OSError OSError = True"
| "is_OSError gaierror = True"
| "is_OSError ConnectionRefusedError = True"
| "is_OSError _ = False"

fun is_ConnectError :: "py_exc \<Rightarrow> bool" where
  "is_ConnectError ConnectError = True"
| "is_ConnectError _ = False"

fun is_TimeoutException :: "py_exc \<Rightarrow> bool" where
  "is_TimeoutException ConnectTimeout = True"
| "is_TimeoutException ReadTimeout = True"
| "is_TimeoutException WriteTimeout = True"
| "is_TimeoutException PoolTimeout = True"
| "is_TimeoutException _ = False"

fun is_RequestError :: "py_exc \<Rightarrow> bool" where
  "is_RequestError ConnectError = True"
| "is_RequestError ConnectTimeout = True"
| "is_RequestError ReadTimeout = True"
| "is_RequestError WriteTimeout = True"
| "is_RequestError PoolTimeout = True"
| "is_RequestError ReadError = True"
| "is_RequestError WriteError = True"
| "is_RequestError CloseError = True"
| "is_RequestError LocalProtocolError = True"
| "is_RequestError RemoteProtocolError = True"
| "is_RequestError ProxyError = True"
| "is_RequestError UnsupportedProtocol = True"
| "is_RequestError DecodingError = True"
| "is_RequestError TooManyRedirects = True"
| "is_RequestError _ = False"

text \<open>
  A Python \<^verbatim>\<open>str\<close> is a sequence of Unicode code points, so slicing and \<open>length\<close>
  count code points as the program does. \<open>lit\<close> reads an ASCII literal of the source.
\<close>

type_synonym str = "nat list"

definition lit :: "string \<Rightarrow> str" where
  "lit s = map of_char s"

datatype level = DEBUG | INFO | ERROR

text \<open>
  What a run does to the outside world, in order. A log record keeps its level and the
  fixed part of its message; the interpolated values are left out.
\<close>

datatype event =
    Log level string
  | DriverInit
  | DriverGet str
  | Sleep nat
  | FindElements str
  | DriverQuit
  | OpenConnection str nat
  | HttpPost str str
  | SendMessage "str option" str

text \<open>A computation yields the events it caused and either the exception it raised
  (\<open>Inl\<close>) or the value it returned (\<open>Inr\<close>).\<close>

type_synonym 'a io = "event list \<times> (py_exc + 'a)"

definition ret :: "'a \<Rightarrow> 'a io" where
  "ret x = ([], Inr x)"

definition raise :: "py_exc \<Rightarrow> 'a io" where
  "raise e = ([], Inl e)"

definition emit :: "event \<Rightarrow> unit io" where
  "emit ev = ([ev], Inr ())"

definition bnd :: "'a io \<Rightarrow> ('a \<Rightarrow> 'b io) \<Rightarrow> 'b io" where
  "bnd m f =
     (case m of
        (t, Inl e) \<Rightarrow> (t, Inl e)
      | (t, Inr x) \<Rightarrow> (case f x of (t', r) \<Rightarrow> (t @ t', r)))"

text \<open>\<^verbatim>\<open>try: m  except ...: h e\<close>. The handler gets every exception; a clause list
  that does not match re-raises it.\<close>

definition try_except :: "'a io \<Rightarrow> (py_exc \<Rightarrow> 'a io) \<Rightarrow> 'a io" where
  "try_except m h =
     (case m of
        (t, Inl e) \<Rightarrow> (case h e of (t', r) \<Rightarrow> (t @ t', r))
      | (t, Inr x) \<Rightarrow> (t, Inr x))"

text \<open>\<^verbatim>\<open>try: m  finally: fin\<close>. The final block runs on both exits; an exception of
  its own replaces the pending outcome.\<close>

definition try_finally :: "'a io \<Rightarrow> unit io \<Rightarrow> 'a io" where
  "try_finally m fin =
     (case m of (t, r) \<Rightarrow>
        (case fin of
           (t', Inl e) \<Rightarrow> (t @ t', Inl e)
         | (t', Inr _) \<Rightarrow> (t @ t', r)))"

text \<open>A call into a library or the outside world whose outcome is given.\<close>

definition lift :: "py_exc + 'a \<Rightarrow> 'a io" where
  "lift r = ([], r)"

definition events :: "'a io \<Rightarrow> event list" where
  "events m = fst m"

definition outcome :: "'a io \<Rightarrow> py_exc + 'a" where
  "outcome m = snd m"

section \<open>String methods\<close>

text \<open>
  \<^verbatim>\<open>str.strip()\<close> removes the leading and trailing characters that
  \<^verbatim>\<open>str.isspace\<close> accepts: the ASCII controls 9 to 13 and 28 to 31, the space, and
  the Unicode white space beyond ASCII.
\<close>

definition py_isspace :: "nat \<Rightarrow> bool" where
  "py_isspace c =
     ((9 \<le> c \<and> c \<le> 13) \<or> (28 \<le> c \<and> c \<le> 32) \<or> c = 0x85 \<or> c = 0xA0 \<or> c = 0x1680 \<or>
      (0x2000 \<le> c \<and> c \<le> 0x200A) \<or> c = 0x2028 \<or> c = 0x2029 \<or> c = 0x202F \<or>
      c = 0x205F \<or> c = 0x3000)"

definition py_strip :: "str \<Rightarrow> str" where
  "py_strip s = rev (dropWhile py_isspace (rev (dropWhile py_isspace s)))"

text \<open>
  \<^verbatim>\<open>str.upper()\<close> replaces every character by its full upper-case mapping, one
  character at a time. The mapping is the interpreter's table (CPython 3.11, Unicode 14):
  \<open>upper_runs\<close> holds the characters whose mapping is one character, as runs
  \<open>(lo, hi, step, d)\<close> (the code points \<open>lo, lo + step, \<dots>, hi\<close> each map to
  themselves plus \<open>d\<close>), and \<open>upper_special\<close> the characters whose mapping is longer.
  Every other character maps to itself.
\<close>

definition upper_runs :: "(nat \<times> nat \<times> nat \<times> int) list" where
  "upper_runs =
     [(0x61, 0x7A, 1, -32), (0xB5, 0xB5, 1, 743), (0xE0, 0xF6, 1, -32), (0xF8, 0xFE, 1,
      -32), (0xFF, 0xFF, 1, 121), (0x101, 0x12F, 2, -1), (0x131, 0x131, 1, -232), (0x133,
      0x137, 2, -1), (0x13A, 0x148, 2, -1), (0x14B, 0x177, 2, -1), (0x17A, 0x17E, 2, -1),
      (0x17F, 0x17F, 1, -300), (0x180, 0x180, 1, 195), (0x183, 0x185, 2, -1), (0x188, 0x188,
      1, -1), (0x18C, 0x18C, 1, -1), (0x192, 0x192, 1, -1), (0x195, 0x195, 1, 97), (0x199,
      0x199, 1, -1), (0x19A, 0x19A, 1, 163), (0x19E, 0x19E, 1, 130), (0x1A1, 0x1A5, 2, -1),
      (0x1A8, 0x1A8, 1, -1), (0x1AD, 0x1AD, 1, -1), (0x1B0, 0x1B0, 1, -1), (0x1B4, 0x1B6, 2,
      -1), (0x1B9, 0x1B9, 1, -1), (0x1BD, 0x1BD, 1, -1), (0x1BF, 0x1BF, 1, 56), (0x1C5,
      0x1C5, 1, -1), (0x1C6, 0x1C6, 1, -2), (0x1C8, 0x1C8, 1, -1), (0x1C9, 0x1C9, 1, -2),
      (0x1CB, 0x1CB, 1, -1), (0x1CC, 0x1CC, 1, -2), (0x1CE, 0x1DC, 2, -1), (0x1DD, 0x1DD, 1,
      -79), (0x1DF, 0x1EF, 2, -1), (0x1F2, 0x1F2, 1, -1), (0x1F3, 0x1F3, 1, -2), (0x1F5,
      0x1F5, 1, -1), (0x1F9, 0x21F, 2, -1), (0x223, 0x233, 2, -1), (0x23C, 0x23C, 1, -1),
      (0x23F, 0x240, 1, 10815), (0x242, 0x242, 1, -1), (0x247, 0x24F, 2, -1), (0x250, 0x250,
      1, 10783), (0x251, 0x251, 1, 10780), (0x252, 0x252, 1, 10782), (0x253, 0x253, 1,
      -210), (0x254, 0x254, 1, -206), (0x256, 0x257, 1, -205), (0x259, 0x259, 1, -202),
      (0x25B, 0x25B, 1, -203), (0x25C, 0x25C, 1, 42319), (0x260, 0x260, 1, -205), (0x261,
      0x261, 1, 42315), (0x263, 0x263, 1, -207), (0x265, 0x265, 1, 42280), (0x266, 0x266, 1,
      42308), (0x268, 0x268, 1, -209), (0x269, 0x269, 1, -211), (0x26A, 0x26A, 1, 42308),
      (0x26B, 0x26B, 1, 10743), (0x26C, 0x26C, 1, 42305), (0x26F, 0x26F, 1, -211), (0x271,
      0x271, 1, 10749), (0x272, 0x272, 1, -213), (0x275, 0x275, 1, -214), (0x27D, 0x27D, 1,
      10727), (0x280, 0x280, 1, -218), (0x282, 0x282, 1, 42307), (0x283, 0x283, 1, -218),
      (0x287, 0x287, 1, 42282), (0x288, 0x288, 1, -218), (0x289, 0x289, 1, -69), (0x28A,
      0x28B, 1, -217), (0x28C, 0x28C, 1, -71), (0x292, 0x292, 1, -219), (0x29D, 0x29D, 1,
      42261), (0x29E, 0x29E, 1, 42258), (0x345, 0x345, 1, 84), (0x371, 0x373, 2, -1),
      (0x377, 0x377, 1, -1), (0x37B, 0x37D, 1, 130), (0x3AC, 0x3AC, 1, -38), (0x3AD, 0x3AF,
      1, -37), (0x3B1, 0x3C1, 1, -32), (0x3C2, 0x3C2, 1, -31), (0x3C3, 0x3CB, 1, -32),
      (0x3CC, 0x3CC, 1, -64), (0x3CD, 0x3CE, 1, -63), (0x3D0, 0x3D0, 1, -62), (0x3D1, 0x3D1,
      1, -57), (0x3D5, 0x3D5, 1, -47), (0x3D6, 0x3D6, 1, -54), (0x3D7, 0x3D7, 1, -8),
      (0x3D9, 0x3EF, 2, -1), (0x3F0, 0x3F0, 1, -86), (0x3F1, 0x3F1, 1, -80), (0x3F2, 0x3F2,
      1, 7), (0x3F3, 0x3F3, 1, -116), (0x3F5, 0x3F5, 1, -96), (0x3F8, 0x3F8, 1, -1), (0x3FB,
      0x3FB, 1, -1), (0x430, 0x44F, 1, -32), (0x450, 0x45F, 1, -80), (0x461, 0x481, 2, -1),
      (0x48B, 0x4BF, 2, -1), (0x4C2, 0x4CE, 2, -1), (0x4CF, 0x4CF, 1, -15), (0x4D1, 0x52F,
      2, -1), (0x561, 0x586, 1, -48), (0x10D0, 0x10FA, 1, 3008), (0x10FD, 0x10FF, 1, 3008),
      (0x13F8, 0x13FD, 1, -8), (0x1C80, 0x1C80, 1, -6254), (0x1C81, 0x1C81, 1, -6253),
      (0x1C82, 0x1C82, 1, -6244), (0x1C83, 0x1C84, 1, -6242), (0x1C85, 0x1C85, 1, -6243),
      (0x1C86, 0x1C86, 1, -6236), (0x1C87, 0x1C87, 1, -6181), (0x1C88, 0x1C88, 1, 35266),
      (0x1D79, 0x1D79, 1, 35332), (0x1D7D, 0x1D7D, 1, 3814), (0x1D8E, 0x1D8E, 1, 35384),
      (0x1E01, 0x1E95, 2, -1), (0x1E9B, 0x1E9B, 1, -59), (0x1EA1, 0x1EFF, 2, -1), (0x1F00,
      0x1F07, 1, 8), (0x1F10, 0x1F15, 1, 8), (0x1F20, 0x1F27, 1, 8), (0x1F30, 0x1F37, 1, 8),
      (0x1F40, 0x1F45, 1, 8), (0x1F51, 0x1F57, 2, 8), (0x1F60, 0x1F67, 1, 8), (0x1F70,
      0x1F71, 1, 74), (0x1F72, 0x1F75, 1, 86), (0x1F76, 0x1F77, 1, 100), (0x1F78, 0x1F79, 1,
      128), (0x1F7A, 0x1F7B, 1, 112), (0x1F7C, 0x1F7D, 1, 126), (0x1FB0, 0x1FB1, 1, 8),
      (0x1FBE, 0x1FBE, 1, -7205), (0x1FD0, 0x1FD1, 1, 8), (0x1FE0, 0x1FE1, 1, 8), (0x1FE5,
      0x1FE5, 1, 7), (0x214E, 0x214E, 1, -28), (0x2170, 0x217F, 1, -16), (0x2184, 0x2184, 1,
      -1), (0x24D0, 0x24E9, 1, -26), (0x2C30, 0x2C5F, 1, -48), (0x2C61, 0x2C61, 1, -1),
      (0x2C65, 0x2C65, 1, -10795), (0x2C66, 0x2C66, 1, -10792), (0x2C68, 0x2C6C, 2, -1),
      (0x2C73, 0x2C73, 1, -1), (0x2C76, 0x2C76, 1, -1), (0x2C81, 0x2CE3, 2, -1), (0x2CEC,
      0x2CEE, 2, -1), (0x2CF3, 0x2CF3, 1, -1), (0x2D00, 0x2D25, 1, -7264), (0x2D27, 0x2D27,
      1, -7264), (0x2D2D, 0x2D2D, 1, -7264), (0xA641, 0xA66D, 2, -1), (0xA681, 0xA69B, 2,
      -1), (0xA723, 0xA72F, 2, -1), (0xA733, 0xA76F, 2, -1), (0xA77A, 0xA77C, 2, -1),
      (0xA77F, 0xA787, 2, -1), (0xA78C, 0xA78C, 1, -1), (0xA791, 0xA793, 2, -1), (0xA794,
      0xA794, 1, 48), (0xA797, 0xA7A9, 2, -1), (0xA7B5, 0xA7C3, 2, -1), (0xA7C8, 0xA7CA, 2,
      -1), (0xA7D1, 0xA7D1, 1, -1), (0xA7D7, 0xA7D9, 2, -1), (0xA7F6, 0xA7F6, 1, -1),
      (0xAB53, 0xAB53, 1, -928), (0xAB70, 0xABBF, 1, -38864), (0xFF41, 0xFF5A, 1, -32),
      (0x10428, 0x1044F, 1, -40), (0x104D8, 0x104FB, 1, -40), (0x10597, 0x105BB, 2, -39),
      (0x10598, 0x105A0, 2, -39), (0x105A4, 0x105B0, 2, -39), (0x105B4, 0x105B8, 2, -39),
      (0x105BC, 0x105BC, 1, -39), (0x10CC0, 0x10CF2, 1, -64), (0x118C0, 0x118DF, 1, -32),
      (0x16E60, 0x16E7F, 1, -32), (0x1E922, 0x1E943, 1, -34)]"

definition upper_special :: "(nat \<times> nat list) list" where
  "upper_special =
     [(0xDF, [0x53, 0x53]), (0x149, [0x2BC, 0x4E]), (0x1F0, [0x4A, 0x30C]), (0x390, [0x399,
      0x308, 0x301]), (0x3B0, [0x3A5, 0x308, 0x301]), (0x587, [0x535, 0x552]), (0x1E96,
      [0x48, 0x331]), (0x1E97, [0x54, 0x308]), (0x1E98, [0x57, 0x30A]), (0x1E99, [0x59,
      0x30A]), (0x1E9A, [0x41, 0x2BE]), (0x1F50, [0x3A5, 0x313]), (0x1F52, [0x3A5, 0x313,
      0x300]), (0x1F54, [0x3A5, 0x313, 0x301]), (0x1F56, [0x3A5, 0x313, 0x342]), (0x1F80,
      [0x1F08, 0x399]), (0x1F81, [0x1F09, 0x399]), (0x1F82, [0x1F0A, 0x399]), (0x1F83,
      [0x1F0B, 0x399]), (0x1F84, [0x1F0C, 0x399]), (0x1F85, [0x1F0D, 0x399]), (0x1F86,
      [0x1F0E, 0x399]), (0x1F87, [0x1F0F, 0x399]), (0x1F88, [0x1F08, 0x399]), (0x1F89,
      [0x1F09, 0x399]), (0x1F8A, [0x1F0A, 0x399]), (0x1F8B, [0x1F0B, 0x399]), (0x1F8C,
      [0x1F0C, 0x399]), (0x1F8D, [0x1F0D, 0x399]), (0x1F8E, [0x1F0E, 0x399]), (0x1F8F,
      [0x1F0F, 0x399]), (0x1F90, [0x1F28, 0x399]), (0x1F91, [0x1F29, 0x399]), (0x1F92,
      [0x1F2A, 0x399]), (0x1F93, [0x1F2B, 0x399]), (0x1F94, [0x1F2C, 0x399]), (0x1F95,
      [0x1F2D, 0x399]), (0x1F96, [0x1F2E, 0x399]), (0x1F97, [0x1F2F, 0x399]), (0x1F98,
      [0x1F28, 0x399]), (0x1F99, [0x1F29, 0x399]), (0x1F9A, [0x1F2A, 0x399]), (0x1F9B,
      [0x1F2B, 0x399]), (0x1F9C, [0x1F2C, 0x399]), (0x1F9D, [0x1F2D, 0x399]), (0x1F9E,
      [0x1F2E, 0x399]), (0x1F9F, [0x1F2F, 0x399]), (0x1FA0, [0x1F68, 0x399]), (0x1FA1,
      [0x1F69, 0x399]), (0x1FA2, [0x1F6A, 0x399]), (0x1FA3, [0x1F6B, 0x399]), (0x1FA4,
      [0x1F6C, 0x399]), (0x1FA5, [0x1F6D, 0x399]), (0x1FA6, [0x1F6E, 0x399]), (0x1FA7,
      [0x1F6F, 0x399]), (0x1FA8, [0x1F68, 0x399]), (0x1FA9, [0x1F69, 0x399]), (0x1FAA,
      [0x1F6A, 0x399]), (0x1FAB, [0x1F6B, 0x399]), (0x1FAC, [0x1F6C, 0x399]), (0x1FAD,
      [0x1F6D, 0x399]), (0x1FAE, [0x1F6E, 0x399]), (0x1FAF, [0x1F6F, 0x399]), (0x1FB2,
      [0x1FBA, 0x399]), (0x1FB3, [0x391, 0x399]), (0x1FB4, [0x386, 0x399]), (0x1FB6, [0x391,
      0x342]), (0x1FB7, [0x391, 0x342, 0x399]), (0x1FBC, [0x391, 0x399]), (0x1FC2, [0x1FCA,
      0x399]), (0x1FC3, [0x397, 0x399]), (0x1FC4, [0x389, 0x399]), (0x1FC6, [0x397, 0x342]),
      (0x1FC7, [0x397, 0x342, 0x399]), (0x1FCC, [0x397, 0x399]), (0x1FD2, [0x399, 0x308,
      0x300]), (0x1FD3, [0x399, 0x308, 0x301]), (0x1FD6, [0x399, 0x342]), (0x1FD7, [0x399,
      0x308, 0x342]), (0x1FE2, [0x3A5, 0x308, 0x300]), (0x1FE3, [0x3A5, 0x308, 0x301]),
      (0x1FE4, [0x3A1, 0x313]), (0x1FE6, [0x3A5, 0x342]), (0x1FE7, [0x3A5, 0x308, 0x342]),
      (0x1FF2, [0x1FFA, 0x399]), (0x1FF3, [0x3A9, 0x399]), (0x1FF4, [0x38F, 0x399]),
      (0x1FF6, [0x3A9, 0x342]), (0x1FF7, [0x3A9, 0x342, 0x399]), (0x1FFC, [0x3A9, 0x399]),
      (0xFB00, [0x46, 0x46]), (0xFB01, [0x46, 0x49]), (0xFB02, [0x46, 0x4C]), (0xFB03,
      [0x46, 0x46, 0x49]), (0xFB04, [0x46, 0x46, 0x4C]), (0xFB05, [0x53, 0x54]), (0xFB06,
      [0x53, 0x54]), (0xFB13, [0x544, 0x546]), (0xFB14, [0x544, 0x535]), (0xFB15, [0x544,
      0x53B]), (0xFB16, [0x54E, 0x546]), (0xFB17, [0x544, 0x53D])]"

definition in_run :: "nat \<Rightarrow> nat \<times> nat \<times> nat \<times> int \<Rightarrow> bool" where
  "in_run c r = (case r of (lo, hi, step, d) \<Rightarrow> lo \<le> c \<and> c \<le> hi \<and> (c - lo) mod step = 0)"

definition py_toupper :: "nat \<Rightarrow> str" where
  "py_toupper c =
     (case find (in_run c) upper_runs of
        Some (lo, hi, step, d) \<Rightarrow> [nat (int c + d)]
      | None \<Rightarrow> (case map_of upper_special c of Some us \<Rightarrow> us | None \<Rightarrow> [c]))"

definition py_upper :: "str \<Rightarrow> str" where
  "py_upper s = concat (map py_toupper s)"

text \<open>\<^verbatim>\<open>s.split(sep)\<close> for a non-empty separator: the pieces between the occurrences of
  \<open>sep\<close>, found from the left without overlap. \<open>acc\<close> holds the current piece, reversed.
  (Python raises \<^verbatim>\<open>ValueError\<close> on an empty separator; the program never passes one,
  and here an empty separator is never found.)\<close>

function py_split_from :: "str \<Rightarrow> str \<Rightarrow> str \<Rightarrow> str list" where
  "py_split_from sep acc [] = [rev acc]"
| "py_split_from sep acc (c # cs) =
     (if sep \<noteq> [] \<and> prefix sep (c # cs)
      then rev acc # py_split_from sep [] (drop (length sep) (c # cs))
      else py_split_from sep (c # acc) cs)"
  by pat_completeness auto
termination
  by (relation "measure (\<lambda>(sep, acc, s). length s)") (auto simp: neq_Nil_conv)

definition py_split :: "str \<Rightarrow> str \<Rightarrow> str list" where
  "py_split s sep = py_split_from sep [] s"

text \<open>\<^verbatim>\<open>s.replace(old, new)\<close> for a non-empty \<open>old\<close>: every occurrence, from the left,
  without overlap.\<close>

function py_replace :: "str \<Rightarrow> str \<Rightarrow> str \<Rightarrow> str" where
  "py_replace [] old new = []"
| "py_replace (c # cs) old new =
     (if old \<noteq> [] \<and> prefix old (c # cs)
      then new @ py_replace (drop (length old) (c # cs)) old new
      else c # py_replace cs old new)"
  by pat_completeness auto
termination
  by (relation "measure (\<lambda>(s, old, new). length s)") (auto simp: neq_Nil_conv)

text \<open>\<^verbatim>\<open>xs[i]\<close> for a non-negative index: \<^verbatim>\<open>IndexError\<close> out of range.\<close>

definition py_index :: "'a list \<Rightarrow> nat \<Rightarrow> py_exc + 'a" where
  "py_index xs i = (if i < length xs then Inr (xs ! i) else Inl IndexError)"

section \<open>The classifier\<close>

text \<open>A decoded JSON value. An object keeps its members in document order; a lookup
  takes the last member of that name, as \<^verbatim>\<open>json.loads\<close> builds the dict. A number
  is kept as its literal: the program never reads its value.\<close>

datatype json =
    JNull
  | JBool bool
  | JNum string
  | JStr str
  | JList "json list"
  | JObj "(str \<times> json) list"

text \<open>An HTTP response of the endpoint: the status, the body text and the JSON value the
  body decodes to, if it is JSON at all.\<close>

record response =
  status_code :: int
  resp_text :: str
  resp_json :: "json option"

text \<open>\<^verbatim>\<open>response.json()\<close>: a \<^verbatim>\<open>JSONDecodeError\<close> when the body is not JSON.\<close>

definition json_of :: "response \<Rightarrow> py_exc + json" where
  "json_of resp = (case resp_json resp of None \<Rightarrow> Inl JSONDecodeError | Some j \<Rightarrow> Inr j)"

text \<open>What the network does during one call of the classifier: the exception of the
  probe's \<^verbatim>\<open>asyncio.open_connection\<close> (or of closing it), if any, and the outcome of
  \<^verbatim>\<open>client.post\<close>.\<close>

record net =
  probe :: "py_exc option"
  post :: "py_exc + response"

definition HF_HOST :: str where
  "HF_HOST = lit ''api-inference.huggingface.co''"

definition HF_API_URL :: str where
  "HF_API_URL =
     lit ''https://api-inference.huggingface.co/models/meta-llama/Meta-Llama-3-8B-Instruct''"

definition check_network_connection :: "net \<Rightarrow> bool io" where
  "check_network_connection nw =
     try_except
       (bnd (emit (OpenConnection HF_HOST 443)) (\<lambda>_.
          (case probe nw of
             Some e \<Rightarrow> raise e
           | None \<Rightarrow> ret True)))
       (\<lambda>e. if is_OSError e
             then bnd (emit (Log ERROR ''Network error'')) (\<lambda>_. ret False)
             else raise e)"

definition create_prompt :: "str \<Rightarrow> str" where
  "create_prompt txt =
     lit ''<|begin_of_text|>'' @
     lit ''<|start_header_id|>system<|end_header_id|>'' @
     lit ''Analyze if this tweet explicitly recommends buying cryptocurrency. '' @
     lit ''Respond ONLY with 'YES' or 'NO'.<|eot_id|>'' @
     lit ''<|start_header_id|>user<|end_header_id|>'' @
     take 500 txt @ lit ''<|eot_id|>'' @
     lit ''<|start_header_id|>assistant<|end_header_id|>''"

text \<open>\<^verbatim>\<open>result[0].get('generated_text', '')\<close>: only a dict has \<^verbatim>\<open>get\<close>.\<close>

definition dict_get :: "json \<Rightarrow> str \<Rightarrow> json \<Rightarrow> py_exc + json" where
  "dict_get j k dflt =
     (case j of
        JObj kvs \<Rightarrow> (case map_of (rev kvs) k of Some v \<Rightarrow> Inr v | None \<Rightarrow> Inr dflt)
      | _ \<Rightarrow> Inl AttributeError)"

text \<open>\<^verbatim>\<open>.strip().upper()\<close>: only a \<^verbatim>\<open>str\<close> has \<^verbatim>\<open>strip\<close>.\<close>

definition strip_upper :: "json \<Rightarrow> py_exc + str" where
  "strip_upper j =
     (case j of
        JStr s \<Rightarrow> Inr (py_upper (py_strip s))
      | _ \<Rightarrow> Inl AttributeError)"

text \<open>The body of \<^verbatim>\<open>is_buy_signal\<close>, the function the retry decorator wraps.\<close>

definition is_buy_signal_fn :: "str \<Rightarrow> net \<Rightarrow> bool io" where
  "is_buy_signal_fn txt nw =
     bnd (check_network_connection nw) (\<lambda>up.
       if \<not> up then ret False
       else
         try_except
           (bnd (emit (HttpPost HF_API_URL (create_prompt txt))) (\<lambda>_.
            bnd (lift (post nw)) (\<lambda>resp.
              if status_code resp = 200 then
                bnd (lift (json_of resp)) (\<lambda>result.
                  (case result of
                     JList (r0 # rs) \<Rightarrow>
                       bnd (lift (dict_get r0 (lit ''generated_text'') (JStr []))) (\<lambda>g.
                       bnd (lift (strip_upper g)) (\<lambda>answer.
                       bnd (emit (Log INFO ''API response'')) (\<lambda>_.
                       ret (answer = lit ''YES''))))
                   | _ \<Rightarrow>
                       bnd (emit (Log ERROR ''Invalid API response'')) (\<lambda>_. ret False)))
              else
                bnd (emit (Log ERROR ''API error'')) (\<lambda>_.
                bnd (if status_code resp = 401 then emit (Log ERROR ''Invalid API token'')
                     else if status_code resp = 404 then emit (Log ERROR ''Model not found'')
                     else ret ()) (\<lambda>_.
                ret False)))))
           (\<lambda>e. if is_RequestError e
                 then bnd (emit (Log ERROR ''Connection error'')) (\<lambda>_. raise e)
                 else bnd (emit (Log ERROR ''Analysis error'')) (\<lambda>_. ret False)))"

text \<open>
  The decorator \<^verbatim>\<open>@retry(stop=stop_after_attempt(2), wait=wait_exponential(multiplier=1,
  min=2, max=15), retry=retry_if_exception_type((ConnectError, TimeoutException)))\<close>.
  tenacity's loop: call the function; a returned value is the result; an exception the
  predicate rejects is raised as it is; otherwise, when the stop condition holds for the
  attempt number, \<^verbatim>\<open>RetryError\<close> is raised from the last exception (\<^verbatim>\<open>reraise\<close> is
  not set), else the loop sleeps \<open>wait attempt_number\<close> and calls again. \<open>fn k\<close> is
  attempt \<open>k\<close>, counted from 1.
\<close>

definition stop_after_attempt :: "nat \<Rightarrow> nat \<Rightarrow> bool" where
  "stop_after_attempt max_attempt_number attempt_number = (attempt_number \<ge> max_attempt_number)"

definition wait_exponential :: "nat \<Rightarrow> nat \<Rightarrow> nat \<Rightarrow> nat \<Rightarrow> nat" where
  "wait_exponential multiplier mn mx attempt_number =
     max (max 0 mn) (min (multiplier * 2 ^ (attempt_number - 1)) mx)"

definition retry_if_transport :: "py_exc \<Rightarrow> bool" where
  "retry_if_transport e = (is_ConnectError e \<or> is_TimeoutException e)"

function retrying :: "nat \<Rightarrow> (nat \<Rightarrow> nat) \<Rightarrow> (py_exc \<Rightarrow> bool) \<Rightarrow> (nat \<Rightarrow> 'a io) \<Rightarrow> nat \<Rightarrow> 'a io" where
  "retrying max_attempt wait retry fn attempt_number =
     (case fn attempt_number of
        (t, Inr x) \<Rightarrow> (t, Inr x)
      | (t, Inl e) \<Rightarrow>
          if \<not> retry e then (t, Inl e)
          else if stop_after_attempt max_attempt attempt_number then (t, Inl (RetryError e))
          else (case retrying max_attempt wait retry fn (Suc attempt_number) of
                  (t', r) \<Rightarrow> (t @ [Sleep (wait attempt_number)] @ t', r)))"
  by pat_completeness auto
termination
  by (relation "measure (\<lambda>(m, w, r, f, a). m - a)") (auto simp: stop_after_attempt_def)

declare retrying.simps [simp del]

text \<open>\<^verbatim>\<open>is_buy_signal\<close> as its callers see it. \<open>nws k\<close> is what the network does during
  attempt \<open>k\<close>.\<close>

definition is_buy_signal :: "str \<Rightarrow> (nat \<Rightarrow> net) \<Rightarrow> bool io" where
  "is_buy_signal txt nws =
     retrying 2 (wait_exponential 1 2 15) retry_if_transport
       (\<lambda>k. is_buy_signal_fn txt (nws k)) 1"

section \<open>Timestamps\<close>

text \<open>
  A \<^verbatim>\<open>datetime\<close>: its position on the time line in microseconds (of its wall clock
  reading; for an aware UTC value that is the instant itself) and its \<^verbatim>\<open>tzinfo\<close>.
  The calendar conversions of the standard library are parameters: \<open>strptime s fmt\<close> is
  the reading of \<open>s\<close> under \<open>fmt\<close> (\<open>None\<close> where Python raises \<^verbatim>\<open>ValueError\<close>) and
  \<open>strftime d fmt\<close> the formatted text.
\<close>

datatype tz = utc

record datetime =
  micros :: int
  tzinfo :: "tz option"

record datetime_lib =
  strptime :: "str \<Rightarrow> str \<Rightarrow> int option"
  strftime :: "datetime \<Rightarrow> str \<Rightarrow> str"

text \<open>\<^verbatim>\<open>d - timedelta(hours=h)\<close>.\<close>

definition sub_hours :: "datetime \<Rightarrow> int \<Rightarrow> datetime" where
  "sub_hours d h = d\<lparr>micros := micros d - h * 3600000000\<rparr>"

text \<open>\<^verbatim>\<open>a > b\<close>: Python refuses to compare a naive with an aware value.\<close>

definition dt_gt :: "datetime \<Rightarrow> datetime \<Rightarrow> py_exc + bool" where
  "dt_gt a b =
     (if (tzinfo a = None) \<noteq> (tzinfo b = None) then Inl TypeError
      else Inr (micros a > micros b))"

section \<open>The scraper\<close>

text \<open>
  One \<^verbatim>\<open>.timeline-item\<close> as the browser gives it: the text of its \<^verbatim>\<open>.tweet-content\<close>,
  the \<^verbatim>\<open>href\<close> of its \<^verbatim>\<open>a.tweet-link\<close> and the \<^verbatim>\<open>title\<close> of its \<^verbatim>\<open>.tweet-date a\<close>.
  \<open>Inl\<close> is the exception of \<^verbatim>\<open>find_element\<close> (\<^verbatim>\<open>NoSuchElementException\<close> when the
  element is missing); \<^verbatim>\<open>get_attribute\<close> gives \<^verbatim>\<open>None\<close> for an absent attribute.
\<close>

record element =
  content :: "py_exc + str"
  href :: "py_exc + str option"
  title :: "py_exc + str option"

text \<open>The driver: what \<^verbatim>\<open>get(url)\<close> raises, if anything, and what
  \<^verbatim>\<open>find_elements\<close> then gives on that page.\<close>

record browser =
  drv_get :: "str \<Rightarrow> py_exc option"
  drv_find_elements :: "str \<Rightarrow> py_exc + element list"

text \<open>An item of the returned list: the dict with the keys \<^verbatim>\<open>text\<close>, \<^verbatim>\<open>id\<close>,
  \<^verbatim>\<open>handle\<close> and \<^verbatim>\<open>time\<close>.\<close>

record tweet =
  tw_text :: str
  tw_id :: str
  tw_handle :: str
  tw_time :: datetime

definition DATE_FORMAT :: str where
  "DATE_FORMAT = lit ''%b %d, %Y '' @ [0xAC, 0x2211] @ lit '' %I:%M %p''"

text \<open>A method call on the result of \<^verbatim>\<open>get_attribute\<close>: \<^verbatim>\<open>None\<close> has no
  \<^verbatim>\<open>split\<close> and no \<^verbatim>\<open>replace\<close>.\<close>

definition attr_str :: "str option \<Rightarrow> py_exc + str" where
  "attr_str a = (case a of None \<Rightarrow> Inl AttributeError | Some s \<Rightarrow> Inr s)"

text \<open>\<^verbatim>\<open>datetime.strptime(date_str.replace(" UTC", ""), fmt).replace(tzinfo=timezone.utc)\<close>.\<close>

definition parse_time :: "datetime_lib \<Rightarrow> str \<Rightarrow> py_exc + datetime" where
  "parse_time l date_str =
     (case strptime l (py_replace date_str (lit '' UTC'') []) DATE_FORMAT of
        None \<Rightarrow> Inl ValueError
      | Some m \<Rightarrow> Inr (\<lparr>micros = m, tzinfo = None\<rparr>\<lparr>tzinfo := Some utc\<rparr>))"

text \<open>The body of the inner \<^verbatim>\<open>try\<close> for one entry: the item to append, if the entry
  is recent.\<close>

definition scrape_entry :: "datetime_lib \<Rightarrow> str \<Rightarrow> datetime \<Rightarrow> element \<Rightarrow> tweet option io" where
  "scrape_entry l handle cutoff_time el =
     bnd (lift (content el)) (\<lambda>c.
     bnd (lift (href el)) (\<lambda>a.
     bnd (lift (attr_str a)) (\<lambda>link.
     bnd (lift (py_index (py_split link (lit ''/status/'')) 1)) (\<lambda>rest.
     bnd (lift (py_index (py_split rest (lit ''#'')) 0)) (\<lambda>tweet_id.
     bnd (lift (title el)) (\<lambda>b.
     bnd (lift (attr_str b)) (\<lambda>date_str.
     bnd (lift (parse_time l date_str)) (\<lambda>tweet_time.
     bnd (lift (dt_gt tweet_time cutoff_time)) (\<lambda>recent.
       if recent then
         bnd (emit (Log INFO ''New tweet'')) (\<lambda>_.
         ret (Some \<lparr>tw_text = take 500 c, tw_id = tweet_id, tw_handle = handle,
                    tw_time = tweet_time\<rparr>))
       else ret None)))))))))"

text \<open>The \<^verbatim>\<open>for\<close> loop over the entries. \<open>tweets\<close> is the list built so far; it
  survives an exception that leaves the loop, which is the third component.\<close>

fun entries_loop ::
  "datetime_lib \<Rightarrow> str \<Rightarrow> datetime \<Rightarrow> element list \<Rightarrow> tweet list
     \<Rightarrow> event list \<times> tweet list \<times> py_exc option" where
  "entries_loop l handle cutoff_time [] tweets = ([], tweets, None)"
| "entries_loop l handle cutoff_time (el # els) tweets =
     (case scrape_entry l handle cutoff_time el of
        (t, Inr (Some tw)) \<Rightarrow>
          (case entries_loop l handle cutoff_time els (tweets @ [tw]) of
             (t', r) \<Rightarrow> (t @ t', r))
      | (t, Inr None) \<Rightarrow>
          (case entries_loop l handle cutoff_time els tweets of
             (t', r) \<Rightarrow> (t @ t', r))
      | (t, Inl e) \<Rightarrow>
          if is_NoSuchElementException e \<or> is_ValueError e then
            (case entries_loop l handle cutoff_time els tweets of
               (t', r) \<Rightarrow> (t @ [Log DEBUG ''Skipping tweet''] @ t', r))
          else (t, tweets, Some e))"

definition nitter_url :: "str \<Rightarrow> str" where
  "nitter_url handle = lit ''https://nitter.net/'' @ handle"

text \<open>The outer \<^verbatim>\<open>try\<close> of \<^verbatim>\<open>get_recent_tweets\<close>: navigation, the settle delay, the
  first five entries, the loop.\<close>

definition scrape_page ::
  "datetime_lib \<Rightarrow> browser \<Rightarrow> str \<Rightarrow> datetime
     \<Rightarrow> event list \<times> tweet list \<times> py_exc option" where
  "scrape_page l drv handle cutoff_time =
     (case drv_get drv (nitter_url handle) of
        Some e \<Rightarrow> ([DriverGet (nitter_url handle)], [], Some e)
      | None \<Rightarrow>
          (case drv_find_elements drv (nitter_url handle) of
             Inl e \<Rightarrow>
               ([DriverGet (nitter_url handle), Sleep 3, FindElements (lit ''.timeline-item'')],
                [], Some e)
           | Inr found \<Rightarrow>
               (case entries_loop l handle cutoff_time (take 5 found) [] of
                  (t, r) \<Rightarrow>
                    ([DriverGet (nitter_url handle), Sleep 3,
                      FindElements (lit ''.timeline-item''), Log DEBUG ''Found tweets''] @ t,
                     r))))"

text \<open>\<^verbatim>\<open>TwitterScraper.get_recent_tweets\<close>; \<open>now\<close> is the reading of
  \<^verbatim>\<open>datetime.now(timezone.utc)\<close> in microseconds.\<close>

definition get_recent_tweets :: "datetime_lib \<Rightarrow> int \<Rightarrow> browser \<Rightarrow> str \<Rightarrow> tweet list io" where
  "get_recent_tweets l now drv handle =
     (let cutoff_time = sub_hours \<lparr>micros = now, tzinfo = Some utc\<rparr> 1 in
      case scrape_page l drv handle cutoff_time of
        (t, tweets, exc) \<Rightarrow>
          ([Log INFO ''Scraping''] @ t @
           (case exc of Some e \<Rightarrow> [Log ERROR ''Scraping error''] | None \<Rightarrow> []) @
           [Log INFO ''Found valid tweets''],
           Inr tweets))"

section \<open>The cycle orchestrator\<close>

text \<open>
  Everything outside the program during one cycle: the calendar library, the outcome of
  starting Chrome, the driver, the clock reading when account \<open>i\<close> is scraped, the network
  during attempt \<open>k\<close> of classifying item \<open>j\<close> of account \<open>i\<close>, what
  \<^verbatim>\<open>bot.send_message\<close> raises for that item, what \<^verbatim>\<open>driver.quit\<close> raises, and the
  environment variable \<^verbatim>\<open>GROUP_CHAT_ID\<close>.
\<close>

record world =
  lib :: datetime_lib
  chrome :: "py_exc option"
  driver :: browser
  clock :: "nat \<Rightarrow> int"
  network :: "nat \<Rightarrow> nat \<Rightarrow> nat \<Rightarrow> net"
  telegram :: "nat \<Rightarrow> nat \<Rightarrow> py_exc option"
  quit :: "py_exc option"
  GROUP_CHAT_ID :: "str option"

definition INFLUENCERS :: "(str \<times> str) list" where
  "INFLUENCERS =
     [(lit ''justsaurabh1103'', lit ''Saurabh Tiwari''),
      (lit ''TheDustyBC'', lit ''DustyBC Crypto''),
      (lit ''Trader_Jibon'', lit ''Trader_J''),
      (lit ''cryptocevo'', lit ''Cevo''),
      (lit ''WhalePanda'', lit ''WhalePanda''),
      (lit ''loomdart'', lit ''Loomdart''),
      (lit ''KoroushAK'', lit ''Koroush AK''),
      (lit ''Tradermayne'', lit ''Mayne''),
      (lit ''AltcoinGordon'', lit ''Gordon''),
      (lit ''Trader_XO'', lit ''XO''),
      (lit ''CryptoWizardd'', lit ''WIZZ''),
      (lit ''MartiniGuyYT'', lit ''That Martini Guy '' @ [0x201A, 0xC7, 0xF8])]"

text \<open>A raising call whose exception, if any, is given.\<close>

definition call :: "py_exc option \<Rightarrow> unit io" where
  "call r = (case r of None \<Rightarrow> ret () | Some e \<Rightarrow> raise e)"

text \<open>\<^verbatim>\<open>TwitterScraper.__init__\<close> and \<^verbatim>\<open>TwitterScraper.close\<close>.\<close>

definition scraper_init :: "world \<Rightarrow> unit io" where
  "scraper_init w =
     try_except
       (bnd (emit DriverInit) (\<lambda>_.
        bnd (call (chrome w)) (\<lambda>_.
        emit (Log INFO ''WebDriver initialized''))))
       (\<lambda>e. bnd (emit (Log ERROR ''WebDriver init failed'')) (\<lambda>_. raise e))"

definition close :: "world \<Rightarrow> unit io" where
  "close w =
     try_except
       (bnd (emit DriverQuit) (\<lambda>_.
        bnd (call (quit w)) (\<lambda>_.
        emit (Log DEBUG ''WebDriver closed''))))
       (\<lambda>e. emit (Log ERROR ''Close error''))"

text \<open>The alert text, line by line; the four markers are the characters the source file
  holds in front of each line.\<close>

definition alert_message :: "datetime_lib \<Rightarrow> str \<Rightarrow> str \<Rightarrow> tweet \<Rightarrow> str" where
  "alert_message l handle name tw =
     [0xF8FF, 0xFC, 0xF6, 0xAE] @ lit '' BUY ALERT from '' @ name @ [0x0A] @
     [0xF8FF, 0xFC, 0xEC, 0xD6] @ lit '' '' @
       strftime l (tw_time tw) (lit ''%Y-%m-%d %H:%M UTC'') @ [0x0A] @
     [0xF8FF, 0xFC, 0xEC, 0xF9] @ lit '' '' @ take 200 (tw_text tw) @ lit ''...'' @ [0x0A] @
     [0xF8FF, 0xFC, 0xEE, 0xF3] @ lit '' https://twitter.com/'' @ handle @
       lit ''/status/'' @ tw_id tw"

text \<open>The body of the loop over the items of account \<open>i\<close>, for item \<open>j\<close>.\<close>

definition process_tweet :: "world \<Rightarrow> nat \<Rightarrow> nat \<Rightarrow> str \<Rightarrow> str \<Rightarrow> tweet \<Rightarrow> unit io" where
  "process_tweet w i j handle name tw =
     bnd (emit (Log INFO ''Tweet'')) (\<lambda>_.
     try_except
       (bnd (is_buy_signal (tw_text tw) (network w i j)) (\<lambda>is_buy.
        bnd (emit (Log INFO ''Buy signal'')) (\<lambda>_.
        if is_buy then
          bnd (emit (SendMessage (GROUP_CHAT_ID w) (alert_message (lib w) handle name tw))) (\<lambda>_.
          bnd (call (telegram w i j)) (\<lambda>_.
          emit (Log INFO ''Alert sent'')))
        else ret ())))
       (\<lambda>e. emit (Log ERROR ''Processing error'')))"

fun tweets_loop :: "world \<Rightarrow> nat \<Rightarrow> nat \<Rightarrow> str \<Rightarrow> str \<Rightarrow> tweet list \<Rightarrow> unit io" where
  "tweets_loop w i j handle name [] = ret ()"
| "tweets_loop w i j handle name (tw # tws) =
     bnd (process_tweet w i j handle name tw) (\<lambda>_.
     tweets_loop w i (Suc j) handle name tws)"

text \<open>The loop over the accounts, from account number \<open>i\<close> on.\<close>

fun accounts_loop :: "world \<Rightarrow> nat \<Rightarrow> (str \<times> str) list \<Rightarrow> unit io" where
  "accounts_loop w i [] = ret ()"
| "accounts_loop w i ((handle, name) # rest) =
     bnd (emit (Log INFO ''Checking'')) (\<lambda>_.
     bnd (get_recent_tweets (lib w) (clock w i) (driver w) handle) (\<lambda>tweets.
     bnd (if tweets = [] then emit (Log DEBUG ''No recent tweets'')
          else bnd (emit (Log INFO ''Analyzing tweets'')) (\<lambda>_.
               tweets_loop w i 0 handle name tweets)) (\<lambda>_.
     accounts_loop w (Suc i) rest)))"

text \<open>The frame of \<^verbatim>\<open>check_influencers\<close> around its \<^verbatim>\<open>for\<close> loop: the scraper is
  built before the \<^verbatim>\<open>try\<close>; the loop runs under \<^verbatim>\<open>except Exception\<close> and
  \<^verbatim>\<open>finally\<close>.\<close>

definition cycle_frame :: "world \<Rightarrow> unit io \<Rightarrow> unit io" where
  "cycle_frame w loop =
     bnd (emit (Log INFO ''Starting monitoring cycle'')) (\<lambda>_.
     bnd (scraper_init w) (\<lambda>_.
     try_finally
       (try_except loop (\<lambda>e. emit (Log ERROR ''Cycle error'')))
       (bnd (close w) (\<lambda>_. emit (Log INFO ''Monitoring complete'')))))"

text \<open>\<^verbatim>\<open>check_influencers\<close>, with the list of accounts it iterates as a parameter;
  the program runs it on \<open>INFLUENCERS\<close>.\<close>

definition run_cycle :: "(str \<times> str) list \<Rightarrow> world \<Rightarrow> unit io" where
  "run_cycle accounts w = cycle_frame w (accounts_loop w 0 accounts)"

definition check_influencers :: "world \<Rightarrow> unit io" where
  "check_influencers w = run_cycle INFLUENCERS w"

section \<open>Observations on a trace\<close>

text \<open>\<open>pre t m\<close> is \<open>m\<close> after the events \<open>t\<close>; with it the combinators rewrite from left
  to right without case splits.\<close>

definition pre :: "event list \<Rightarrow> 'a io \<Rightarrow> 'a io" where
  "pre t m = (t @ fst m, snd m)"

fun is_OpenConnection :: "event \<Rightarrow> bool" where
  "is_OpenConnection (OpenConnection h p) = True"
| "is_OpenConnection _ = False"

fun is_HttpPost :: "event \<Rightarrow> bool" where
  "is_HttpPost (HttpPost u p) = True"
| "is_HttpPost _ = False"

fun is_SendMessage :: "event \<Rightarrow> bool" where
  "is_SendMessage (SendMessage c m) = True"
| "is_SendMessage _ = False"

fun is_DriverQuit :: "event \<Rightarrow> bool" where
  "is_DriverQuit DriverQuit = True"
| "is_DriverQuit _ = False"

text \<open>Every call of the wrapped function opens exactly one probe connection, so the
  probes in a trace count the attempts.\<close>

definition attempts :: "event list \<Rightarrow> nat" where
  "attempts t = length (filter is_OpenConnection t)"

text \<open>What one attempt reads from a response: the answer, and the log records it
  writes.\<close>

definition answer_of :: "response \<Rightarrow> bool" where
  "answer_of resp =
     (status_code resp = 200 \<and>
      (case resp_json resp of
         Some (JList (JObj kvs # rs)) \<Rightarrow>
           (case dict_get (JObj kvs) (lit ''generated_text'') (JStr []) of
              Inr (JStr s) \<Rightarrow> py_upper (py_strip s) = lit ''YES''
            | _ \<Rightarrow> False)
       | _ \<Rightarrow> False))"

definition response_log :: "response \<Rightarrow> event list" where
  "response_log resp =
     (if status_code resp = 200 then
        (case resp_json resp of
           Some (JList (JObj kvs # rs)) \<Rightarrow>
             (case dict_get (JObj kvs) (lit ''generated_text'') (JStr []) of
                Inr (JStr s) \<Rightarrow> [Log INFO ''API response'']
              | _ \<Rightarrow> [Log ERROR ''Analysis error''])
         | Some (JList (r0 # rs)) \<Rightarrow> [Log ERROR ''Analysis error'']
         | Some _ \<Rightarrow> [Log ERROR ''Invalid API response'']
         | None \<Rightarrow> [Log ERROR ''Analysis error''])
      else if status_code resp = 401 then [Log ERROR ''API error'', Log ERROR ''Invalid API token'']
      else if status_code resp = 404 then [Log ERROR ''API error'', Log ERROR ''Model not found'']
      else [Log ERROR ''API error''])"

section \<open>Concrete networks and responses\<close>

text \<open>A network that behaves the same way during every attempt, and one whose first
  attempt differs from the later ones.\<close>

definition always :: "net \<Rightarrow> nat \<Rightarrow> net" where
  "always nw k = nw"

definition first_then :: "net \<Rightarrow> net \<Rightarrow> nat \<Rightarrow> net" where
  "first_then nw nw' k = (if k = 1 then nw else nw')"

text \<open>The endpoint answers with status \<open>st\<close> and the decoded body \<open>j\<close>.\<close>

definition reply :: "int \<Rightarrow> json option \<Rightarrow> response" where
  "reply st j = \<lparr>status_code = st, resp_text = [], resp_json = j\<rparr>"

definition answering :: "int \<Rightarrow> json option \<Rightarrow> net" where
  "answering st j = \<lparr>probe = None, post = Inr (reply st j)\<rparr>"

definition generated :: "str \<Rightarrow> json" where
  "generated s = JList [JObj [(lit ''generated_text'', JStr s)]]"

text \<open>The host is reachable and the request fails with the given exception.\<close>

definition failing :: "py_exc \<Rightarrow> net" where
  "failing e = \<lparr>probe = None, post = Inl e\<rparr>"

text \<open>The host is unreachable: the probe raises \<^verbatim>\<open>OSError\<close>.\<close>

definition unreachable :: net where
  "unreachable = \<lparr>probe = Some OSError, post = Inl ConnectError\<rparr>"

section \<open>Concrete pages\<close>

text \<open>
  The examples are set on 4 November 2026, 10:00 UTC. \<open>example_calendar\<close> is the
  calendar library on the readings the examples use, where it gives what Python gives:
  the title \<^verbatim>\<open>Nov 4, 2026 .. 9:30 AM\<close> (with the two separator characters of the
  program's format between year and time) reads as 09:30 of that day, and so on; it
  refuses every other string. The theorems hold for every library.
\<close>

definition stamp :: "string \<Rightarrow> str" where
  "stamp hm = lit ''Nov 4, 2026 '' @ [0xAC, 0x2211] @ lit '' '' @ lit hm"

definition example_calendar :: datetime_lib where
  "example_calendar =
     \<lparr>strptime = (\<lambda>s fmt.
        if fmt = DATE_FORMAT
        then map_of [(stamp ''9:30 AM'', 1793784600000000),
                     (stamp ''9:00 AM'', 1793782800000000),
                     (stamp ''7:00 AM'', 1793775600000000)] s
        else None),
      strftime = (\<lambda>d fmt.
        if fmt = lit ''%Y-%m-%d %H:%M UTC'' \<and> micros d = 1793784600000000
        then lit ''2026-11-04 09:30 UTC''
        else if fmt = lit ''%Y-%m-%d %H:%M UTC'' \<and> micros d = 1793782800000000
        then lit ''2026-11-04 09:00 UTC''
        else [])\<rparr>"

definition ten_o_clock :: int where
  "ten_o_clock = 1793786400000000"

text \<open>An entry of the timeline of \<^verbatim>\<open>bob\<close> with the given text, status number and
  time of day.\<close>

definition entry :: "string \<Rightarrow> string \<Rightarrow> string \<Rightarrow> element" where
  "entry body num hm =
     \<lparr>content = Inr (lit body),
      href = Inr (Some (lit ''https://nitter.net/bob/status/'' @ lit num @ lit ''#m'')),
      title = Inr (Some (stamp hm @ lit '' UTC''))\<rparr>"

text \<open>The item such an entry gives.\<close>

definition item :: "string \<Rightarrow> string \<Rightarrow> int \<Rightarrow> tweet" where
  "item body num m =
     \<lparr>tw_text = take 500 (lit body), tw_id = lit num, tw_handle = lit ''bob'',
      tw_time = \<lparr>micros = m, tzinfo = Some utc\<rparr>\<rparr>"

text \<open>An entry whose link does not lead to a status, and one without a text element.\<close>

definition entry_without_status :: element where
  "entry_without_status =
     \<lparr>content = Inr (lit ''Pinned''),
      href = Inr (Some (lit ''https://nitter.net/bob'')),
      title = Inr (Some (stamp ''9:00 AM'' @ lit '' UTC''))\<rparr>"

definition entry_without_text :: element where
  "entry_without_text =
     \<lparr>content = Inl NoSuchElementException,
      href = Inr (Some (lit ''https://nitter.net/bob/status/7#m'')),
      title = Inr (Some (stamp ''9:00 AM'' @ lit '' UTC''))\<rparr>"

text \<open>A browser that loads every page and finds the given entries, and one whose
  navigation fails.\<close>

definition showing :: "element list \<Rightarrow> browser" where
  "showing els = \<lparr>drv_get = (\<lambda>u. None), drv_find_elements = (\<lambda>u. Inr els)\<rparr>"

definition broken :: "py_exc \<Rightarrow> browser" where
  "broken e = \<lparr>drv_get = (\<lambda>u. Some e), drv_find_elements = (\<lambda>u. Inr [])\<rparr>"

section \<open>Concrete worlds\<close>

text \<open>A world at ten o'clock with the example calendar, a working Telegram and a chat to
  write to; whether Chrome starts, what the browser shows and what the network does are
  given.\<close>

definition example_world ::
  "py_exc option \<Rightarrow> browser \<Rightarrow> (nat \<Rightarrow> nat \<Rightarrow> nat \<Rightarrow> net) \<Rightarrow> world" where
  "example_world started drv nets =
     \<lparr>lib = example_calendar, chrome = started, driver = drv, clock = (\<lambda>i. ten_o_clock),
      network = nets, telegram = (\<lambda>i j. None), quit = None,
      GROUP_CHAT_ID = Some (lit ''-1001234'')\<rparr>"


definition every_item_yes :: "nat \<Rightarrow> nat \<Rightarrow> nat \<Rightarrow> net" where
  "every_item_yes i j = always (answering 200 (Some (generated (lit '' yes ''))))"

section \<open>Rewriting computations\<close>

lemma pre_simps:
  "pre t (pre t' m) = pre (t @ t') m"
  "pre t (ret x) = (t, Inr x)"
  "pre t (raise e) = (t, Inl e)"
  "pre t (t', r) = (t @ t', r)"
  by (simp_all add: pre_def ret_def raise_def)

lemma bnd_simps:
  "bnd (ret x) f = f x"
  "bnd (raise e) f = raise e"
  "bnd (emit ev) g = pre [ev] (g ())"
  "bnd (lift (Inr x)) f = f x"
  "bnd (lift (Inl e)) f = raise e"
  "bnd (pre t m) f = pre t (bnd m f)"
  "bnd (t, Inr x) f = pre t (f x)"
  "bnd (t, Inl e) f = (t, Inl e)"
  by (simp_all add: pre_def ret_def raise_def emit_def lift_def bnd_def
      split: prod.splits sum.splits)

lemma try_simps:
  "try_except (ret x) h = ret x"
  "try_except (raise e) h = h e"
  "try_except (pre t m) h = pre t (try_except m h)"
  "try_except (t, Inr x) h = (t, Inr x)"
  "try_except (t, Inl e) h = pre t (h e)"
  by (simp_all add: pre_def ret_def raise_def try_except_def split: prod.splits sum.splits)

lemma emit_simps:
  "emit ev = ([ev], Inr ())"
  "pre t (emit ev) = (t @ [ev], Inr ())"
  by (simp_all add: pre_def emit_def)

lemmas io_simps = pre_simps bnd_simps try_simps

lemma events_outcome [simp]:
  "events (t, r) = t" "outcome (t, r) = r"
  by (simp_all add: events_def outcome_def)

lemma io_eqI: "events m = t \<Longrightarrow> outcome m = r \<Longrightarrow> m = (t, r)"
  by (cases m) simp

lemma io_split: "m = (events m, outcome m)"
  by (simp add: events_def outcome_def)

section \<open>The classifier: one attempt\<close>

lemma dict_get_obj:
  "dict_get (JObj kvs) k d = Inr (case map_of (rev kvs) k of Some v \<Rightarrow> v | None \<Rightarrow> d)"
  by (simp add: dict_get_def split: option.splits)

lemma fn_probe_down:
  "probe nw = Some e \<Longrightarrow> is_OSError e \<Longrightarrow>
   is_buy_signal_fn txt nw = ([OpenConnection HF_HOST 443, Log ERROR ''Network error''], Inr False)"
  by (simp add: is_buy_signal_fn_def check_network_connection_def io_simps)

lemma fn_probe_raises:
  "probe nw = Some e \<Longrightarrow> \<not> is_OSError e \<Longrightarrow>
   is_buy_signal_fn txt nw = ([OpenConnection HF_HOST 443], Inl e)"
  by (simp add: is_buy_signal_fn_def check_network_connection_def io_simps)

lemma fn_post_raises:
  "probe nw = None \<Longrightarrow> post nw = Inl e \<Longrightarrow>
   is_buy_signal_fn txt nw =
     ([OpenConnection HF_HOST 443, HttpPost HF_API_URL (create_prompt txt),
       Log ERROR (if is_RequestError e then ''Connection error'' else ''Analysis error'')],
      if is_RequestError e then Inl e else Inr False)"
  by (simp add: is_buy_signal_fn_def check_network_connection_def io_simps)

lemma fn_post_returns:
  assumes "probe nw = None" and "post nw = Inr resp"
  shows "is_buy_signal_fn txt nw =
     ([OpenConnection HF_HOST 443, HttpPost HF_API_URL (create_prompt txt)] @ response_log resp,
      Inr (answer_of resp))"
proof (cases "status_code resp = 200")
  case False
  with assms show ?thesis
    by (simp add: is_buy_signal_fn_def check_network_connection_def io_simps emit_simps
        answer_of_def response_log_def)
next
  case ok: True
  show ?thesis
  proof (cases "resp_json resp")
    case None
    with assms ok show ?thesis
      by (simp add: is_buy_signal_fn_def check_network_connection_def io_simps
          answer_of_def response_log_def json_of_def)
  next
    case (Some j)
    note d = is_buy_signal_fn_def check_network_connection_def io_simps json_of_def
      answer_of_def response_log_def
    show ?thesis
    proof (cases j)
      case (JList xs)
      show ?thesis
      proof (cases xs)
        case Nil
        with JList Some ok show ?thesis
          using assms by (simp add: d)
      next
        case (Cons r0 rs)
        show ?thesis
        proof (cases r0)
          case (JObj kvs)
          show ?thesis
          proof (cases "case map_of (rev kvs) (lit ''generated_text'') of Some v \<Rightarrow> v | None \<Rightarrow> JStr []")
            case (JStr s)
            with JObj Cons JList Some ok assms show ?thesis
              by (simp add: d dict_get_obj strip_upper_def)
          qed (use JObj Cons JList Some ok assms in
               \<open>simp_all add: d dict_get_obj strip_upper_def\<close>)
        qed (use Cons JList Some ok assms in \<open>simp_all add: d dict_get_def\<close>)
      qed
    qed (use Some ok assms in \<open>simp_all add: d\<close>)
  qed
qed

section \<open>The classifier behind its retry wrapper\<close>

lemma wait_first: "wait_exponential 1 2 15 1 = 2"
  by (simp add: wait_exponential_def)

lemma retrying_last:
  "retrying 2 w r fn 2 =
     (case fn 2 of
        (t, Inr x) \<Rightarrow> (t, Inr x)
      | (t, Inl e) \<Rightarrow> (t, Inl (if r e then RetryError e else e)))"
  by (subst retrying.simps) (simp add: stop_after_attempt_def split: prod.split sum.split)

lemma retrying_first:
  "retrying 2 w r fn 1 =
     (case fn 1 of
        (t, Inr x) \<Rightarrow> (t, Inr x)
      | (t, Inl e) \<Rightarrow>
          if \<not> r e then (t, Inl e)
          else (case retrying 2 w r fn 2 of (t', r') \<Rightarrow> (t @ [Sleep (w 1)] @ t', r')))"
proof -
  have s: "Suc 1 = 2" by simp
  obtain t x where p: "fn 1 = (t, x)" by (cases "fn 1")
  show ?thesis
    by (subst retrying.simps, simp only: s p, cases x) (simp_all add: stop_after_attempt_def)
qed

lemma is_buy_signal_unfold:
  "is_buy_signal txt nws =
     (case is_buy_signal_fn txt (nws 1) of
        (t, Inr x) \<Rightarrow> (t, Inr x)
      | (t, Inl e) \<Rightarrow>
          if \<not> retry_if_transport e then (t, Inl e)
          else (case is_buy_signal_fn txt (nws 2) of
                  (t', Inr x) \<Rightarrow> (t @ [Sleep 2] @ t', Inr x)
                | (t', Inl e') \<Rightarrow>
                    (t @ [Sleep 2] @ t',
                     Inl (if retry_if_transport e' then RetryError e' else e'))))"
  unfolding is_buy_signal_def retrying_first retrying_last
  by (simp add: wait_exponential_def split: prod.split sum.split)

lemma first_returns:
  "outcome (is_buy_signal_fn txt (nws 1)) = Inr b \<Longrightarrow>
   is_buy_signal txt nws = is_buy_signal_fn txt (nws 1)"
  by (cases "is_buy_signal_fn txt (nws 1)") (simp add: is_buy_signal_unfold)

lemma first_not_retried:
  "outcome (is_buy_signal_fn txt (nws 1)) = Inl e \<Longrightarrow> \<not> retry_if_transport e \<Longrightarrow>
   is_buy_signal txt nws = is_buy_signal_fn txt (nws 1)"
  by (cases "is_buy_signal_fn txt (nws 1)") (simp add: is_buy_signal_unfold)

lemma first_retried:
  assumes "outcome (is_buy_signal_fn txt (nws 1)) = Inl e" and "retry_if_transport e"
  shows "is_buy_signal txt nws =
           (events (is_buy_signal_fn txt (nws 1)) @ [Sleep 2] @ events (is_buy_signal_fn txt (nws 2)),
            case outcome (is_buy_signal_fn txt (nws 2)) of
              Inr b \<Rightarrow> Inr b
            | Inl e' \<Rightarrow> Inl (if retry_if_transport e' then RetryError e' else e'))"
proof -
  obtain t where a: "is_buy_signal_fn txt (nws 1) = (t, Inl e)"
    using assms(1) by (cases "is_buy_signal_fn txt (nws 1)") simp
  obtain t' r' where b: "is_buy_signal_fn txt (nws 2) = (t', r')"
    by (cases "is_buy_signal_fn txt (nws 2)")
  show ?thesis
    unfolding is_buy_signal_unfold a b using assms(2) by (cases r') simp_all
qed

lemma first_retried_events:
  assumes "outcome (is_buy_signal_fn txt (nws 1)) = Inl e" and "retry_if_transport e"
  shows "events (is_buy_signal txt nws) =
           events (is_buy_signal_fn txt (nws 1)) @ [Sleep 2] @ events (is_buy_signal_fn txt (nws 2))"
  using assms by (simp add: first_retried [of _ nws e])

lemma first_retried_outcome:
  assumes "outcome (is_buy_signal_fn txt (nws 1)) = Inl e" and "retry_if_transport e"
  shows "outcome (is_buy_signal txt nws) =
           (case outcome (is_buy_signal_fn txt (nws 2)) of
              Inr b \<Rightarrow> Inr b
            | Inl e' \<Rightarrow> Inl (if retry_if_transport e' then RetryError e' else e'))"
  using assms by (simp add: first_retried [of _ nws e])

lemma fn_attempts: "attempts (events (is_buy_signal_fn txt nw)) = 1"
proof (cases "probe nw")
  case (Some e)
  then show ?thesis
    by (cases "is_OSError e") (simp_all add: fn_probe_down fn_probe_raises attempts_def)
next
  case None
  show ?thesis
  proof (cases "post nw")
    case (Inl e)
    with None show ?thesis by (simp add: fn_post_raises attempts_def)
  next
    case (Inr resp)
    have "filter is_OpenConnection (response_log resp) = []"
      by (simp add: response_log_def split: option.splits json.splits list.splits sum.splits)
    with None Inr show ?thesis by (simp add: fn_post_returns attempts_def)
  qed
qed

lemma attempts_append: "attempts (s @ t) = attempts s + attempts t"
  by (simp add: attempts_def)

lemma is_buy_signal_attempts: "attempts (events (is_buy_signal txt nws)) \<le> 2"
proof (cases "outcome (is_buy_signal_fn txt (nws 1))")
  case (Inr b)
  then show ?thesis by (simp add: first_returns fn_attempts)
next
  case (Inl e)
  show ?thesis
  proof (cases "retry_if_transport e")
    case False
    with Inl show ?thesis by (simp add: first_not_retried fn_attempts)
  next
    case True
    have ev: "events (is_buy_signal txt nws) =
        events (is_buy_signal_fn txt (nws 1)) @ [Sleep 2] @ events (is_buy_signal_fn txt (nws 2))"
      using Inl True by (rule first_retried_events)
    have "attempts (events (is_buy_signal txt nws)) =
        attempts (events (is_buy_signal_fn txt (nws 1))) +
        attempts (events (is_buy_signal_fn txt (nws 2)))"
      unfolding ev by (simp add: attempts_def)
    then show ?thesis
      by (simp only: fn_attempts)
  qed
qed

lemma wait_bounds:
  "2 \<le> wait_exponential 1 2 15 k" "wait_exponential 1 2 15 k \<le> 15"
  by (simp_all add: wait_exponential_def)

lemma wait_mono: "wait_exponential 1 2 15 k \<le> wait_exponential 1 2 15 (Suc k)"
proof -
  have "(2::nat) ^ (k - Suc 0) \<le> 2 ^ k" by (rule power_increasing) simp_all
  then have "min ((2::nat) ^ (k - Suc 0)) 15 \<le> min (2 ^ k) 15"
    by (rule min.mono) simp
  then have "max 2 (min ((2::nat) ^ (k - Suc 0)) 15) \<le> max 2 (min (2 ^ k) 15)"
    by (rule max.mono [OF order_refl])
  then show ?thesis by (simp add: wait_exponential_def)
qed

lemma probe_reports_failure:
  "outcome (check_network_connection nw) = Inr False \<longleftrightarrow> (\<exists>e. probe nw = Some e \<and> is_OSError e)"
  by (cases "probe nw") (auto simp: check_network_connection_def io_simps)

lemma answering_simps [simp]:
  "probe (answering st j) = None"
  "post (answering st j) = Inr (reply st j)"
  "status_code (reply st j) = st" "resp_json (reply st j) = j"
  "probe (failing e) = None" "post (failing e) = Inl e"
  "probe unreachable = Some OSError"
  "always nw k = nw"
  by (simp_all add: answering_def reply_def failing_def unreachable_def always_def)

section \<open>Evaluating the string methods\<close>

lemmas str_eval = lit_def py_upper_def py_strip_def py_isspace_def py_toupper_def in_run_def
  upper_runs_def upper_special_def

lemma strip_upper_yes: "py_upper (py_strip (lit '' yes '')) = lit ''YES''"
  by (simp add: str_eval)

lemma strip_upper_nbsp: "py_upper (py_strip ([0xA0] @ lit ''yes'' @ [0xA0])) = lit ''YES''"
  by (simp add: str_eval)

lemma strip_upper_long_s: "py_upper (py_strip (lit ''ye'' @ [0x17F])) = lit ''YES''"
  by (simp add: str_eval)

lemma strip_upper_no: "py_upper (py_strip (lit ''no'')) \<noteq> lit ''YES''"
  by (simp add: str_eval)

lemma strip_upper_inner: "py_upper (py_strip (lit ''y e s'')) \<noteq> lit ''YES''"
  by (simp add: str_eval)

section \<open>One attempt within the call\<close>



lemma attempt_returns:
  assumes "k = 1 \<or> k = 2 \<and> (\<exists>e. outcome (is_buy_signal_fn txt (nws 1)) = Inl e \<and> retry_if_transport e)"
    and "outcome (is_buy_signal_fn txt (nws k)) = Inr b"
  shows "outcome (is_buy_signal txt nws) = Inr b"
proof (cases "k = 1")
  case True
  with assms(2) show ?thesis by (simp add: first_returns)
next
  case False
  with assms obtain e where k: "k = 2"
    and e: "outcome (is_buy_signal_fn txt (nws 1)) = Inl e" "retry_if_transport e"
    by blast
  from k e assms(2) show ?thesis by (simp add: first_retried_outcome [of _ nws e])
qed



section \<open>The concrete networks\<close>

lemma first_then_simps [simp]:
  "first_then nw nw' 1 = nw" "first_then nw nw' (Suc 0) = nw" "first_then nw nw' 2 = nw'"
  by (simp_all add: first_then_def)

lemma generated_text:
  "dict_get (JObj [(lit ''generated_text'', v)]) (lit ''generated_text'') (JStr []) = Inr v"
  by (simp add: dict_get_def)

lemma fn_failing:
  "is_RequestError e \<Longrightarrow> outcome (is_buy_signal_fn txt (failing e)) = Inl e"
  by (simp add: fn_post_raises)

lemma retry_if_transport_iff:
  "retry_if_transport e \<longleftrightarrow> is_ConnectError e \<or> is_TimeoutException e"
  by (simp add: retry_if_transport_def)

lemma failing_attempt:
  "is_RequestError e \<Longrightarrow>
   is_buy_signal_fn txt (failing e) =
     ([OpenConnection HF_HOST 443, HttpPost HF_API_URL (create_prompt txt),
       Log ERROR ''Connection error''], Inl e)"
  by (simp add: fn_post_raises)

lemma failing_other:
  "\<not> is_RequestError e \<Longrightarrow>
   is_buy_signal_fn txt (failing e) =
     ([OpenConnection HF_HOST 443, HttpPost HF_API_URL (create_prompt txt),
       Log ERROR ''Analysis error''], Inr False)"
  by (simp add: fn_post_raises)

lemma unreachable_attempt:
  "is_buy_signal_fn txt unreachable =
     ([OpenConnection HF_HOST 443, Log ERROR ''Network error''], Inr False)"
  by (simp add: fn_probe_down [of _ OSError])

section \<open>The scraper: one entry\<close>

lemma py_split_from_nonempty: "py_split_from sep acc s \<noteq> []"
  by (induction sep acc s rule: py_split_from.induct) auto

lemma py_split_without:
  "\<not> sublist sep s \<Longrightarrow> py_split_from sep acc s = [rev acc @ s]"
proof (induction s arbitrary: acc)
  case Nil
  then show ?case by simp
next
  case (Cons c cs)
  from Cons.prems have "\<not> prefix sep (c # cs)" and "\<not> sublist sep cs"
    by (simp_all add: sublist_Cons_right)
  with Cons.IH [of "c # acc"] show ?case by simp
qed

lemma index_without_status:
  "\<not> sublist (lit ''/status/'') link \<Longrightarrow>
   py_index (py_split link (lit ''/status/'')) (Suc 0) = Inl IndexError"
  by (simp add: py_split_def py_split_without py_index_def)

lemma scrape_entry_without_status:
  assumes "content el = Inr c" and "href el = Inr (Some link)"
    and "\<not> sublist (lit ''/status/'') link"
  shows "scrape_entry l handle cutoff el = ([], Inl IndexError)"
  using assms
  by (simp add: scrape_entry_def io_simps attr_str_def index_without_status raise_def)

lemma first_piece: "py_index (py_split s sep) 0 = Inr (hd (py_split s sep))"
  using py_split_from_nonempty [of sep "[]" s]
  by (simp add: py_index_def py_split_def hd_conv_nth)

lemma scrape_entry_reads:
  assumes "content el = Inr c" and "href el = Inr (Some link)"
    and "py_split link (lit ''/status/'') = p0 # rest # pieces"
    and "title el = Inr (Some d)"
    and "strptime l (py_replace d (lit '' UTC'') []) DATE_FORMAT = Some m"
    and "tzinfo cutoff \<noteq> None"
  shows "scrape_entry l handle cutoff el =
     (if m > micros cutoff
      then ([Log INFO ''New tweet''],
            Inr (Some \<lparr>tw_text = take 500 c, tw_id = hd (py_split rest (lit ''#'')),
                       tw_handle = handle, tw_time = \<lparr>micros = m, tzinfo = Some utc\<rparr>\<rparr>))
      else ([], Inr None))"
proof -
  have second: "py_index (p0 # rest # pieces) (Suc 0) = Inr rest"
    by (simp add: py_index_def)
  from assms show ?thesis
    by (simp add: scrape_entry_def io_simps attr_str_def second first_piece
        parse_time_def dt_gt_def emit_simps ret_def)
qed

lemma bnd_lift_InrE:
  assumes "bnd (lift r) f = (t, Inr v)"
  obtains x where "r = Inr x" and "f x = (t, Inr v)"
  using assms by (cases r) (simp_all add: bnd_def lift_def split: prod.splits)

lemma scrape_entry_item:
  assumes "scrape_entry l handle cutoff el = (t, Inr (Some tw))"
  shows "length (tw_text tw) \<le> 500 \<and> tzinfo (tw_time tw) = Some utc \<and>
         micros (tw_time tw) > micros cutoff \<and> tw_handle tw = handle"
  using assms unfolding scrape_entry_def
  by (elim bnd_lift_InrE)
     (auto simp: parse_time_def dt_gt_def io_simps emit_simps ret_def
       split: if_splits option.splits)

section \<open>The scraper: the loop and the page\<close>

lemma entries_loop_step:
  assumes "scrape_entry l handle cutoff el = (te, r)"
  shows "entries_loop l handle cutoff (el # els) acc =
     (case r of
        Inr (Some tw) \<Rightarrow>
          (case entries_loop l handle cutoff els (acc @ [tw]) of (t', x) \<Rightarrow> (te @ t', x))
      | Inr None \<Rightarrow>
          (case entries_loop l handle cutoff els acc of (t', x) \<Rightarrow> (te @ t', x))
      | Inl e \<Rightarrow>
          if is_NoSuchElementException e \<or> is_ValueError e
          then (case entries_loop l handle cutoff els acc of
                  (t', x) \<Rightarrow> (te @ [Log DEBUG ''Skipping tweet''] @ t', x))
          else (te, acc, Some e))"
  using assms by (simp split: sum.splits option.splits)

lemma entries_loop_items:
  assumes "entries_loop l handle cutoff els acc = (t, tws, exc)"
  shows "\<exists>new. tws = acc @ new \<and> length new \<le> length els \<and>
           (\<forall>tw\<in>set new. length (tw_text tw) \<le> 500 \<and> tzinfo (tw_time tw) = Some utc \<and>
              micros (tw_time tw) > micros cutoff \<and> tw_handle tw = handle)"
  using assms
proof (induction els arbitrary: acc t)
  case Nil
  then show ?case by simp
next
  case (Cons el els)
  obtain te r where se: "scrape_entry l handle cutoff el = (te, r)"
    by (cases "scrape_entry l handle cutoff el")
  note step = entries_loop_step [OF se, of els acc]
  show ?case
  proof (cases r)
    case (Inl e)
    show ?thesis
    proof (cases "is_NoSuchElementException e \<or> is_ValueError e")
      case True
      obtain t' x where rest: "entries_loop l handle cutoff els acc = (t', x)"
        by (cases "entries_loop l handle cutoff els acc")
      with step Inl True Cons.prems have "entries_loop l handle cutoff els acc = (t', tws, exc)"
        by simp
      from Cons.IH [OF this] show ?thesis by auto
    next
      case False
      with step Inl Cons.prems have "tws = acc" by simp
      then show ?thesis by simp
    qed
  next
    case (Inr res)
    show ?thesis
    proof (cases res)
      case None
      obtain t' x where rest: "entries_loop l handle cutoff els acc = (t', x)"
        by (cases "entries_loop l handle cutoff els acc")
      with step Inr None Cons.prems have "entries_loop l handle cutoff els acc = (t', tws, exc)"
        by simp
      from Cons.IH [OF this] show ?thesis by auto
    next
      case (Some tw)
      obtain t' x where rest: "entries_loop l handle cutoff els (acc @ [tw]) = (t', x)"
        by (cases "entries_loop l handle cutoff els (acc @ [tw])")
      with step Inr Some Cons.prems
      have "entries_loop l handle cutoff els (acc @ [tw]) = (t', tws, exc)" by simp
      from Cons.IH [OF this] obtain new where new: "tws = (acc @ [tw]) @ new"
        "length new \<le> length els"
        "\<forall>tw\<in>set new. length (tw_text tw) \<le> 500 \<and> tzinfo (tw_time tw) = Some utc \<and>
              micros (tw_time tw) > micros cutoff \<and> tw_handle tw = handle"
        by blast
      from se Inr Some have "scrape_entry l handle cutoff el = (te, Inr (Some tw))" by simp
      from scrape_entry_item [OF this] new show ?thesis
        by (intro exI [of _ "tw # new"]) simp
    qed
  qed
qed

text \<open>When no exception leaves the loop, the list built is that of the recent entries,
  in the order of the page.\<close>

lemma entries_loop_exact:
  assumes "\<forall>el\<in>set els. case outcome (scrape_entry l handle cutoff el) of
             Inl e \<Rightarrow> is_NoSuchElementException e \<or> is_ValueError e | Inr r \<Rightarrow> True"
  shows "snd (entries_loop l handle cutoff els acc) =
     (acc @ List.map_filter
        (\<lambda>el. case outcome (scrape_entry l handle cutoff el) of Inr r \<Rightarrow> r | Inl e \<Rightarrow> None) els,
      None)"
  using assms
proof (induction els arbitrary: acc)
  case Nil
  then show ?case by (simp add: List.map_filter_simps)
next
  case (Cons el els)
  obtain te r where se: "scrape_entry l handle cutoff el = (te, r)"
    by (cases "scrape_entry l handle cutoff el")
  note step = entries_loop_step [OF se, of els]
  from Cons.prems have rest: "\<forall>el\<in>set els. case outcome (scrape_entry l handle cutoff el) of
             Inl e \<Rightarrow> is_NoSuchElementException e \<or> is_ValueError e | Inr r \<Rightarrow> True"
    by simp
  note IH = Cons.IH [OF rest]
  show ?case
  proof (cases r)
    case (Inl e)
    with Cons.prems se have "is_NoSuchElementException e \<or> is_ValueError e" by simp
    with Inl se step [of acc] IH [of acc] show ?thesis
      by (auto simp: List.map_filter_simps split: prod.splits)
  next
    case (Inr res)
    show ?thesis
    proof (cases res)
      case None
      with Inr se step [of acc] IH [of acc] show ?thesis
        by (auto simp: List.map_filter_simps split: prod.splits)
    next
      case (Some tw)
      with Inr se step [of acc] IH [of "acc @ [tw]"] show ?thesis
        by (auto simp: List.map_filter_simps split: prod.splits)
    qed
  qed
qed

text \<open>The loop over a page in two parts.\<close>

lemma entries_loop_append:
  "entries_loop l handle cutoff (xs @ ys) acc =
     (case entries_loop l handle cutoff xs acc of
        (t, tws, None) \<Rightarrow>
          (case entries_loop l handle cutoff ys tws of (t', r) \<Rightarrow> (t @ t', r))
      | (t, tws, Some e) \<Rightarrow> (t, tws, Some e))"
proof (induction xs arbitrary: acc)
  case Nil
  then show ?case by (simp split: prod.splits)
next
  case (Cons el xs)
  obtain te r where se: "scrape_entry l handle cutoff el = (te, r)"
    by (cases "scrape_entry l handle cutoff el")
  note step = entries_loop_step [OF se]
  show ?case
  proof (cases r)
    case (Inl e)
    with step [of "xs @ ys" acc] step [of xs acc] Cons.IH [of acc] show ?thesis
      by (simp split: prod.splits option.splits)
  next
    case (Inr res)
    show ?thesis
    proof (cases res)
      case None
      with Inr step [of "xs @ ys" acc] step [of xs acc] Cons.IH [of acc] show ?thesis
        by (simp split: prod.splits option.splits)
    next
      case (Some tw)
      with Inr step [of "xs @ ys" acc] step [of xs acc] Cons.IH [of "acc @ [tw]"] show ?thesis
        by (simp split: prod.splits option.splits)
    qed
  qed
qed

lemma get_recent_tweets_unfold:
  "get_recent_tweets l now drv handle =
     (case scrape_page l drv handle \<lparr>micros = now - 3600000000, tzinfo = Some utc\<rparr> of
        (t, tweets, exc) \<Rightarrow>
          ([Log INFO ''Scraping''] @ t @
           (case exc of Some e \<Rightarrow> [Log ERROR ''Scraping error''] | None \<Rightarrow> []) @
           [Log INFO ''Found valid tweets''],
           Inr tweets))"
  by (simp add: get_recent_tweets_def sub_hours_def)

lemma get_recent_tweets_returns:
  "\<exists>tweets. outcome (get_recent_tweets l now drv handle) = Inr tweets"
  by (simp add: get_recent_tweets_unfold split: prod.splits)

lemma page_load_fails:
  "drv_get drv (nitter_url handle) = Some e \<Longrightarrow>
   get_recent_tweets l now drv handle =
     ([Log INFO ''Scraping'', DriverGet (nitter_url handle),
       Log ERROR ''Scraping error'', Log INFO ''Found valid tweets''], Inr [])"
  by (simp add: get_recent_tweets_unfold scrape_page_def)

lemma find_elements_fails:
  "drv_get drv (nitter_url handle) = None \<Longrightarrow>
   drv_find_elements drv (nitter_url handle) = Inl e \<Longrightarrow>
   get_recent_tweets l now drv handle =
     ([Log INFO ''Scraping'', DriverGet (nitter_url handle), Sleep 3,
       FindElements (lit ''.timeline-item''),
       Log ERROR ''Scraping error'', Log INFO ''Found valid tweets''], Inr [])"
  by (simp add: get_recent_tweets_unfold scrape_page_def)

lemma page_loaded:
  "drv_get drv (nitter_url handle) = None \<Longrightarrow>
   drv_find_elements drv (nitter_url handle) = Inr found \<Longrightarrow>
   entries_loop l handle \<lparr>micros = now - 3600000000, tzinfo = Some utc\<rparr> (take 5 found) [] =
     (t, tws, exc) \<Longrightarrow>
   get_recent_tweets l now drv handle =
     ([Log INFO ''Scraping'', DriverGet (nitter_url handle), Sleep 3,
       FindElements (lit ''.timeline-item''), Log DEBUG ''Found tweets''] @ t @
      (case exc of Some e \<Rightarrow> [Log ERROR ''Scraping error''] | None \<Rightarrow> []) @
      [Log INFO ''Found valid tweets''],
      Inr tws)"
  by (simp add: get_recent_tweets_unfold scrape_page_def)

lemma take_5_split:
  "length before < 5 \<Longrightarrow>
   take 5 (before @ el # later) = before @ el # take (4 - length before) later"
  by (simp add: take_Cons' )

text \<open>An exception of an entry that the inner handler does not catch ends the loop; the
  entries after it play no part.\<close>

lemma loop_escape:
  assumes "entries_loop l handle cutoff before [] = (t, tws, None)"
    and "scrape_entry l handle cutoff el = (te, Inl e)"
    and "\<not> (is_NoSuchElementException e \<or> is_ValueError e)"
  shows "entries_loop l handle cutoff (before @ el # later) [] = (t @ te, tws, Some e)"
  using assms by (simp add: entries_loop_append)

lemma page_escape:
  assumes "drv_get drv (nitter_url handle) = None"
    and "drv_find_elements drv (nitter_url handle) = Inr (before @ el # later)"
    and "length before < 5"
    and "entries_loop l handle \<lparr>micros = now - 3600000000, tzinfo = Some utc\<rparr> before [] =
           (t, tws, None)"
    and "scrape_entry l handle \<lparr>micros = now - 3600000000, tzinfo = Some utc\<rparr> el = (te, Inl e)"
    and "\<not> (is_NoSuchElementException e \<or> is_ValueError e)"
  shows "get_recent_tweets l now drv handle =
     ([Log INFO ''Scraping'', DriverGet (nitter_url handle), Sleep 3,
       FindElements (lit ''.timeline-item''), Log DEBUG ''Found tweets''] @ t @ te @
      [Log ERROR ''Scraping error'', Log INFO ''Found valid tweets''],
      Inr tws)"
proof -
  have "entries_loop l handle \<lparr>micros = now - 3600000000, tzinfo = Some utc\<rparr>
      (take 5 (before @ el # later)) [] = (t @ te, tws, Some e)"
    unfolding take_5_split [OF assms(3)] using assms(4,5,6) by (rule loop_escape)
  with assms(1,2) show ?thesis
    by (simp add: page_loaded [where exc = "Some e"])
qed

section \<open>The concrete pages\<close>

lemmas page_eval = scrape_entry_def io_simps attr_str_def py_index_def py_split_def
  parse_time_def dt_gt_def entry_def entry_without_status_def entry_without_text_def
  stamp_def lit_def example_calendar_def DATE_FORMAT_def ten_o_clock_def item_def
  emit_simps ret_def raise_def

lemma recent_entry:
  "scrape_entry example_calendar (lit ''bob'')
     \<lparr>micros = ten_o_clock - 3600000000, tzinfo = Some utc\<rparr>
     (entry ''Buy $XYZ now!!'' ''123'' ''9:30 AM'') =
   ([Log INFO ''New tweet''], Inr (Some (item ''Buy $XYZ now!!'' ''123'' 1793784600000000)))"
  by (simp add: page_eval)

lemma entry_at_cutoff:
  "scrape_entry example_calendar (lit ''bob'')
     \<lparr>micros = ten_o_clock - 3600000000, tzinfo = Some utc\<rparr>
     (entry ''Sell'' ''122'' ''9:00 AM'') =
   ([], Inr None)"
  by (simp add: page_eval)

lemma old_entry:
  "scrape_entry example_calendar (lit ''bob'')
     \<lparr>micros = ten_o_clock - 3600000000, tzinfo = Some utc\<rparr>
     (entry ''gm'' ''121'' ''7:00 AM'') =
   ([], Inr None)"
  by (simp add: page_eval)

lemma unreadable_entry:
  "scrape_entry example_calendar (lit ''bob'')
     \<lparr>micros = ten_o_clock - 3600000000, tzinfo = Some utc\<rparr>
     (entry ''gm'' ''120'' ''yesterday'') =
   ([], Inl ValueError)"
  by (simp add: page_eval)

lemma textless_entry:
  "scrape_entry example_calendar (lit ''bob'')
     \<lparr>micros = ten_o_clock - 3600000000, tzinfo = Some utc\<rparr> entry_without_text =
   ([], Inl NoSuchElementException)"
  by (simp add: page_eval)

lemma statusless_entry:
  "scrape_entry example_calendar (lit ''bob'')
     \<lparr>micros = ten_o_clock - 3600000000, tzinfo = Some utc\<rparr> entry_without_status =
   ([], Inl IndexError)"
  by (simp add: page_eval)

lemma late_entry:
  "scrape_entry example_calendar (lit ''bob'')
     \<lparr>micros = ten_o_clock - 3600000000, tzinfo = Some utc\<rparr>
     (entry ''Buy more'' ''119'' ''9:30 AM'') =
   ([Log INFO ''New tweet''], Inr (Some (item ''Buy more'' ''119'' 1793784600000000)))"
  by (simp add: page_eval)

lemmas entry_eval = recent_entry entry_at_cutoff old_entry unreadable_entry textless_entry
  statusless_entry late_entry

lemma showing_simps [simp]:
  "drv_get (showing els) u = None" "drv_find_elements (showing els) u = Inr els"
  "drv_get (broken e) u = Some e"
  by (simp_all add: showing_def broken_def)

lemma no_status_in_profile_link: "\<not> sublist (lit ''/status/'') (lit ''https://nitter.net/bob'')"
  by (simp add: lit_def sublist_Cons_right)

lemma page_with_pinned_entry:
  "get_recent_tweets example_calendar ten_o_clock
     (showing [entry ''Buy $XYZ now!!'' ''123'' ''9:30 AM'', entry_without_status,
               entry ''Buy more'' ''119'' ''9:30 AM''])
     (lit ''bob'') =
   ([Log INFO ''Scraping'', DriverGet (nitter_url (lit ''bob'')), Sleep 3,
     FindElements (lit ''.timeline-item''), Log DEBUG ''Found tweets'', Log INFO ''New tweet'',
     Log ERROR ''Scraping error'', Log INFO ''Found valid tweets''],
    Inr [item ''Buy $XYZ now!!'' ''123'' 1793784600000000])"
  using page_loaded [of "showing [entry ''Buy $XYZ now!!'' ''123'' ''9:30 AM'',
      entry_without_status, entry ''Buy more'' ''119'' ''9:30 AM'']" "lit ''bob''" _
      example_calendar ten_o_clock]
  by (simp add: recent_entry statusless_entry)

section \<open>Which events a part of the program can cause\<close>

lemma fn_filter:
  assumes "\<And>h p. \<not> P (OpenConnection h p)" and "\<And>u b. \<not> P (HttpPost u b)"
    and "\<And>lv m. \<not> P (Log lv m)"
  shows "filter P (events (is_buy_signal_fn txt nw)) = []"
proof (cases "probe nw")
  case (Some e)
  then show ?thesis
    by (cases "is_OSError e") (simp_all add: fn_probe_down fn_probe_raises assms)
next
  case None
  show ?thesis
  proof (cases "post nw")
    case (Inl e)
    with None show ?thesis by (simp add: fn_post_raises assms)
  next
    case (Inr resp)
    have "filter P (response_log resp) = []"
      by (simp add: response_log_def assms split: option.splits json.splits list.splits sum.splits)
    with None Inr show ?thesis by (simp add: fn_post_returns assms)
  qed
qed

lemma is_buy_signal_filter:
  assumes "\<And>h p. \<not> P (OpenConnection h p)" and "\<And>u b. \<not> P (HttpPost u b)"
    and "\<And>lv m. \<not> P (Log lv m)" and "\<And>n. \<not> P (Sleep n)"
  shows "filter P (events (is_buy_signal txt nws)) = []"
proof -
  note fn = fn_filter [of P, OF assms(1,2,3)]
  show ?thesis
  proof (cases "outcome (is_buy_signal_fn txt (nws 1))")
    case (Inr b)
    then show ?thesis by (simp add: first_returns fn)
  next
    case (Inl e)
    then show ?thesis
      by (cases "retry_if_transport e")
         (simp_all add: first_not_retried first_retried_events [of _ nws e] fn assms(4))
  qed
qed

lemma classifier_sends_nothing [simp]:
  "filter is_SendMessage (events (is_buy_signal txt nws)) = []"
  by (rule is_buy_signal_filter) simp_all

lemma classifier_quits_nothing [simp]:
  "filter is_DriverQuit (events (is_buy_signal txt nws)) = []"
  by (rule is_buy_signal_filter) simp_all

lemma events_bnd_lift:
  "events (bnd (lift r) f) = (case r of Inl e \<Rightarrow> [] | Inr x \<Rightarrow> events (f x))"
  by (cases r) (simp_all add: io_simps raise_def)

lemma scrape_entry_filter:
  assumes "\<And>lv m. \<not> P (Log lv m)"
  shows "filter P (events (scrape_entry l handle cutoff el)) = []"
  by (simp add: scrape_entry_def events_bnd_lift io_simps emit_simps ret_def assms
      split: sum.splits)

lemma entries_loop_filter:
  assumes "\<And>lv m. \<not> P (Log lv m)"
  shows "filter P (fst (entries_loop l handle cutoff els acc)) = []"
proof (induction els arbitrary: acc)
  case Nil
  then show ?case by simp
next
  case (Cons el els)
  obtain te r where se: "scrape_entry l handle cutoff el = (te, r)"
    by (cases "scrape_entry l handle cutoff el")
  from scrape_entry_filter [of P l handle cutoff el, OF assms] se
  have te: "filter P te = []" by simp
  show ?case
  proof (cases r)
    case (Inl e)
    with se te Cons.IH [of acc] show ?thesis
      by (auto simp: entries_loop_step [OF se] assms split: prod.splits)
  next
    case (Inr res)
    show ?thesis
    proof (cases res)
      case None
      with Inr se te Cons.IH [of acc] show ?thesis
        by (auto simp: entries_loop_step [OF se] split: prod.splits)
    next
      case (Some tw)
      with Inr se te Cons.IH [of "acc @ [tw]"] show ?thesis
        by (auto simp: entries_loop_step [OF se] split: prod.splits)
    qed
  qed
qed

lemma get_recent_tweets_filter:
  assumes "\<And>lv m. \<not> P (Log lv m)" and "\<And>u. \<not> P (DriverGet u)"
    and "\<And>n. \<not> P (Sleep n)" and "\<And>s. \<not> P (FindElements s)"
  shows "filter P (events (get_recent_tweets l now drv handle)) = []"
proof (cases "drv_get drv (nitter_url handle)")
  case (Some e)
  then show ?thesis by (simp add: page_load_fails assms)
next
  case None
  show ?thesis
  proof (cases "drv_find_elements drv (nitter_url handle)")
    case (Inl e)
    with None show ?thesis by (simp add: find_elements_fails assms)
  next
    case (Inr found)
    obtain t tws exc where loop:
      "entries_loop l handle \<lparr>micros = now - 3600000000, tzinfo = Some utc\<rparr> (take 5 found) [] =
         (t, tws, exc)"
      by (cases "entries_loop l handle \<lparr>micros = now - 3600000000, tzinfo = Some utc\<rparr>
            (take 5 found) []")
    from entries_loop_filter [of P l handle
        "\<lparr>micros = now - 3600000000, tzinfo = Some utc\<rparr>" "take 5 found" "[]", OF assms(1)] loop
    have "filter P t = []" by simp
    with None Inr show ?thesis
      by (simp add: page_loaded [OF None Inr loop] assms split: option.splits)
  qed
qed

lemma scraper_sends_nothing [simp]:
  "filter is_SendMessage (events (get_recent_tweets l now drv handle)) = []"
  by (rule get_recent_tweets_filter) simp_all

lemma scraper_quits_nothing [simp]:
  "filter is_DriverQuit (events (get_recent_tweets l now drv handle)) = []"
  by (rule get_recent_tweets_filter) simp_all

section \<open>The orchestrator: one item, one account\<close>

lemma process_tweet_unfold:
  "process_tweet w i j handle name tw =
     ([Log INFO ''Tweet''] @ events (is_buy_signal (tw_text tw) (network w i j)) @
      (case outcome (is_buy_signal (tw_text tw) (network w i j)) of
         Inl e \<Rightarrow> [Log ERROR ''Processing error'']
       | Inr b \<Rightarrow>
           [Log INFO ''Buy signal''] @
           (if b
            then [SendMessage (GROUP_CHAT_ID w) (alert_message (lib w) handle name tw)] @
                 (case telegram w i j of
                    None \<Rightarrow> [Log INFO ''Alert sent'']
                  | Some e \<Rightarrow> [Log ERROR ''Processing error''])
            else [])),
      Inr ())"
proof -
  obtain t r where c: "is_buy_signal (tw_text tw) (network w i j) = (t, r)"
    by (cases "is_buy_signal (tw_text tw) (network w i j)")
  show ?thesis
  proof (cases r)
    case (Inl e)
    with c show ?thesis by (simp add: process_tweet_def io_simps emit_simps)
  next
    case (Inr b)
    with c show ?thesis
      by (cases b; cases "telegram w i j")
         (simp_all add: process_tweet_def io_simps emit_simps call_def ret_def raise_def)
  qed
qed


lemma process_tweet_sends:
  "filter is_SendMessage (events (process_tweet w i j handle name tw)) =
     (if outcome (is_buy_signal (tw_text tw) (network w i j)) = Inr True
      then [SendMessage (GROUP_CHAT_ID w) (alert_message (lib w) handle name tw)]
      else [])"
  by (simp add: process_tweet_unfold split: sum.splits option.splits)

lemma process_tweet_quits_nothing [simp]:
  "filter is_DriverQuit (events (process_tweet w i j handle name tw)) = []"
  by (simp add: process_tweet_unfold split: sum.splits option.splits)

lemma tweets_loop_step:
  "tweets_loop w i j handle name (tw # tws) =
     (events (process_tweet w i j handle name tw) @
      events (tweets_loop w i (Suc j) handle name tws), Inr ())"
proof (induction tws arbitrary: j tw)
  case Nil
  show ?case by (simp add: process_tweet_unfold [of w i j] io_simps ret_def)
next
  case (Cons a tws)
  show ?case
    using Cons [of "Suc j" a]
    by (simp add: process_tweet_unfold [of w i j handle name tw] io_simps)
qed

lemma tweets_loop_returns: "outcome (tweets_loop w i j handle name tws) = Inr ()"
  by (cases tws) (simp_all add: tweets_loop_step ret_def del: tweets_loop.simps(2))

lemma tweets_loop_quits_nothing [simp]:
  "filter is_DriverQuit (events (tweets_loop w i j handle name tws)) = []"
  by (induction tws arbitrary: j) (simp_all add: tweets_loop_step ret_def del: tweets_loop.simps(2))

lemma accounts_loop_step:
  "accounts_loop w i ((handle, name) # rest) =
     ([Log INFO ''Checking''] @
      events (get_recent_tweets (lib w) (clock w i) (driver w) handle) @
      (case outcome (get_recent_tweets (lib w) (clock w i) (driver w) handle) of
         Inr [] \<Rightarrow> [Log DEBUG ''No recent tweets'']
       | Inr (tw # tws) \<Rightarrow>
           [Log INFO ''Analyzing tweets''] @ events (tweets_loop w i 0 handle name (tw # tws))
       | Inl e \<Rightarrow> []) @
      events (accounts_loop w (Suc i) rest),
      outcome (accounts_loop w (Suc i) rest))"
proof -
  obtain t tweets where g:
    "get_recent_tweets (lib w) (clock w i) (driver w) handle = (t, Inr tweets)"
    using get_recent_tweets_returns [of "lib w" "clock w i" "driver w" handle]
    by (cases "get_recent_tweets (lib w) (clock w i) (driver w) handle") auto
  obtain ta ra where a: "accounts_loop w (Suc i) rest = (ta, ra)"
    by (cases "accounts_loop w (Suc i) rest")
  show ?thesis
  proof (cases tweets)
    case Nil
    with g a show ?thesis by (simp add: io_simps emit_simps)
  next
    case (Cons tw tws)
    with g a show ?thesis
      by (simp add: io_simps emit_simps tweets_loop_step del: tweets_loop.simps(2))
  qed
qed

lemma accounts_loop_returns: "outcome (accounts_loop w i accounts) = Inr ()"
proof (induction accounts arbitrary: i)
  case Nil
  show ?case by (simp add: ret_def)
next
  case (Cons a accounts)
  obtain handle name where "a = (handle, name)" by (cases a)
  with Cons show ?case
    by (simp add: accounts_loop_step del: accounts_loop.simps(2))
qed

lemma accounts_loop_quits_nothing [simp]:
  "filter is_DriverQuit (events (accounts_loop w i accounts)) = []"
proof (induction accounts arbitrary: i)
  case Nil
  show ?case by (simp add: ret_def)
next
  case (Cons a accounts)
  obtain handle name where "a = (handle, name)" by (cases a)
  with Cons show ?case
    by (simp add: accounts_loop_step split: sum.splits list.splits
        del: accounts_loop.simps(2) tweets_loop.simps(2))
qed

section \<open>The orchestrator: the frame of the cycle\<close>

lemma scraper_init_fails:
  "chrome w = Some e \<Longrightarrow>
   scraper_init w = ([DriverInit, Log ERROR ''WebDriver init failed''], Inl e)"
  by (simp add: scraper_init_def io_simps call_def emit_simps raise_def)

lemma scraper_init_succeeds:
  "chrome w = None \<Longrightarrow> scraper_init w = ([DriverInit, Log INFO ''WebDriver initialized''], Inr ())"
  by (simp add: scraper_init_def io_simps call_def emit_simps)

lemma close_unfold:
  "close w =
     ([DriverQuit] @
      (case quit w of
         None \<Rightarrow> [Log DEBUG ''WebDriver closed'']
       | Some e \<Rightarrow> [Log ERROR ''Close error'']),
      Inr ())"
  by (cases "quit w") (simp_all add: close_def io_simps call_def emit_simps raise_def)

lemma cycle_frame_fails:
  "chrome w = Some e \<Longrightarrow>
   cycle_frame w loop =
     ([Log INFO ''Starting monitoring cycle'', DriverInit, Log ERROR ''WebDriver init failed''],
      Inl e)"
  by (simp add: cycle_frame_def scraper_init_fails io_simps)

lemma cycle_frame_runs:
  assumes "chrome w = None"
  shows "cycle_frame w loop =
     ([Log INFO ''Starting monitoring cycle'', DriverInit, Log INFO ''WebDriver initialized''] @
      events loop @
      (case outcome loop of Inl e \<Rightarrow> [Log ERROR ''Cycle error''] | Inr u \<Rightarrow> []) @
      [DriverQuit] @
      (case quit w of
         None \<Rightarrow> [Log DEBUG ''WebDriver closed'']
       | Some e \<Rightarrow> [Log ERROR ''Close error'']) @
      [Log INFO ''Monitoring complete''],
      Inr ())"
proof -
  obtain t r where l: "loop = (t, r)" by (cases loop)
  show ?thesis
    by (cases r)
       (simp_all add: l cycle_frame_def scraper_init_succeeds [OF assms] close_unfold io_simps
         emit_simps try_finally_def)
qed

section \<open>A cycle over one account\<close>

lemma single_account:
  assumes "chrome w = None"
    and "outcome (get_recent_tweets (lib w) (clock w 0) (driver w) handle) = Inr tws"
  shows "outcome (run_cycle [(handle, name)] w) = Inr ()"
    and "filter is_SendMessage (events (run_cycle [(handle, name)] w)) =
           filter is_SendMessage (events (tweets_loop w 0 0 handle name tws))"
    and "tws \<noteq> [] \<Longrightarrow>
         set (events (tweets_loop w 0 0 handle name tws)) \<subseteq>
           set (events (run_cycle [(handle, name)] w))"
proof -
  note frame = cycle_frame_runs [OF assms(1), of "accounts_loop w 0 [(handle, name)]",
      folded run_cycle_def]
  show "outcome (run_cycle [(handle, name)] w) = Inr ()"
    by (simp add: frame)
  show "filter is_SendMessage (events (run_cycle [(handle, name)] w)) =
      filter is_SendMessage (events (tweets_loop w 0 0 handle name tws))"
    using assms(2)
    by (cases tws)
       (simp_all add: frame accounts_loop_step ret_def accounts_loop_returns
         split: option.splits del: accounts_loop.simps(2) tweets_loop.simps(2))
  show "set (events (tweets_loop w 0 0 handle name tws)) \<subseteq>
      set (events (run_cycle [(handle, name)] w))" if "tws \<noteq> []"
    using assms(2) that
    by (cases tws)
       (auto simp: frame accounts_loop_step ret_def accounts_loop_returns
         split: option.splits simp del: accounts_loop.simps(2) tweets_loop.simps(2))
qed

lemma says_yes:
  "outcome (is_buy_signal txt (always (answering 200 (Some (generated (lit '' yes '')))))) =
     Inr True"
proof -
  have "is_buy_signal_fn txt (always (answering 200 (Some (generated (lit '' yes '')))) 1) =
      ([OpenConnection HF_HOST 443, HttpPost HF_API_URL (create_prompt txt)] @
       response_log (reply 200 (Some (generated (lit '' yes '')))),
       Inr (answer_of (reply 200 (Some (generated (lit '' yes ''))))))"
    by (rule fn_post_returns) simp_all
  moreover have "answer_of (reply 200 (Some (generated (lit '' yes ''))))"
    by (simp add: answer_of_def generated_def generated_text strip_upper_yes)
  ultimately show ?thesis by (simp add: first_returns [of _ _ True])
qed


lemma example_world_simps [simp]:
  "lib (example_world started drv nets) = example_calendar"
  "chrome (example_world started drv nets) = started"
  "driver (example_world started drv nets) = drv"
  "clock (example_world started drv nets) i = ten_o_clock"
  "network (example_world started drv nets) = nets"
  "telegram (example_world started drv nets) i j = None"
  "quit (example_world started drv nets) = None"
  "GROUP_CHAT_ID (example_world started drv nets) = Some (lit ''-1001234'')"
  by (simp_all add: example_world_def)


lemma one_recent_entry:
  "outcome (get_recent_tweets example_calendar ten_o_clock
     (showing [entry ''Buy $XYZ now!!'' ''123'' ''9:30 AM'']) (lit ''bob'')) =
   Inr [item ''Buy $XYZ now!!'' ''123'' 1793784600000000]"
  using page_loaded [of "showing [entry ''Buy $XYZ now!!'' ''123'' ''9:30 AM'']"
      "lit ''bob''" _ example_calendar ten_o_clock]
  by (simp add: recent_entry)

section \<open>C1: the answer read from a response\<close>

text \<open>A response reaches the classifier during the first attempt, or during the second
  one after a first attempt that was retried. Either way the call returns what this
  response reads as.\<close>

lemma is_buy_signal_of_response:
  assumes "probe (nws k) = None" and "post (nws k) = Inr resp"
    and "k = 1 \<or> k = 2 \<and> (\<exists>e. outcome (is_buy_signal_fn txt (nws 1)) = Inl e \<and> retry_if_transport e)"
  shows "outcome (is_buy_signal txt nws) = Inr (answer_of resp)"
    and "set (response_log resp) \<subseteq> set (events (is_buy_signal txt nws))"
proof -
  have fn: "is_buy_signal_fn txt (nws k) =
      ([OpenConnection HF_HOST 443, HttpPost HF_API_URL (create_prompt txt)] @ response_log resp,
       Inr (answer_of resp))"
    using assms(1,2) by (rule fn_post_returns)
  show "outcome (is_buy_signal txt nws) = Inr (answer_of resp)"
  proof (cases "k = 1")
    case True
    with fn show ?thesis by (simp add: first_returns)
  next
    case False
    with assms(3) obtain e where k: "k = 2"
      and e: "outcome (is_buy_signal_fn txt (nws 1)) = Inl e" "retry_if_transport e"
      by blast
    from fn k e show ?thesis by (simp add: first_retried_outcome [of _ nws e])
  qed
  show "set (response_log resp) \<subseteq> set (events (is_buy_signal txt nws))"
  proof (cases "k = 1")
    case True
    with fn show ?thesis by (auto simp: first_returns)
  next
    case False
    with assms(3) obtain e where k: "k = 2"
      and e: "outcome (is_buy_signal_fn txt (nws 1)) = Inl e" "retry_if_transport e"
      by blast
    from fn k e show ?thesis by (auto simp: first_retried_events [of _ nws e])
  qed
qed

lemma answer_of_status: "status_code resp \<noteq> 200 \<Longrightarrow> \<not> answer_of resp"
  by (simp add: answer_of_def)

lemma response_log_status:
  "status_code resp \<noteq> 200 \<Longrightarrow> Log ERROR ''API error'' \<in> set (response_log resp)"
  by (simp add: response_log_def)

lemma answer_of_not_json:
  "status_code resp = 200 \<Longrightarrow> resp_json resp = None \<Longrightarrow>
   \<not> answer_of resp \<and> Log ERROR ''Analysis error'' \<in> set (response_log resp)"
  by (simp add: answer_of_def response_log_def)

lemma answer_of_not_list:
  "status_code resp = 200 \<Longrightarrow> resp_json resp = Some j \<Longrightarrow> \<forall>r0 rs. j \<noteq> JList (r0 # rs) \<Longrightarrow>
   \<not> answer_of resp \<and> Log ERROR ''Invalid API response'' \<in> set (response_log resp)"
  by (cases j; simp add: answer_of_def response_log_def split: list.splits)

lemma answer_of_no_text:
  assumes "status_code resp = 200" and "resp_json resp = Some (JList (r0 # rs))"
    and "\<forall>s. dict_get r0 (lit ''generated_text'') (JStr []) \<noteq> Inr (JStr s)"
  shows "\<not> answer_of resp \<and> Log ERROR ''Analysis error'' \<in> set (response_log resp)"
proof (cases r0)
  case (JObj kvs)
  with assms show ?thesis
    by (cases "dict_get (JObj kvs) (lit ''generated_text'') (JStr [])")
       (auto simp: answer_of_def response_log_def split: json.splits)
qed (use assms in \<open>simp_all add: answer_of_def response_log_def\<close>)

lemma answer_of_text:
  assumes "status_code resp = 200" and "resp_json resp = Some (JList (r0 # rs))"
    and "dict_get r0 (lit ''generated_text'') (JStr []) = Inr (JStr s)"
  shows "answer_of resp = (py_upper (py_strip s) = lit ''YES'') \<and>
         Log INFO ''API response'' \<in> set (response_log resp)"
proof (cases r0)
  case (JObj kvs)
  with assms show ?thesis by (simp add: answer_of_def response_log_def)
qed (use assms in \<open>simp_all add: dict_get_def\<close>)

text \<open>
  C1. For every HTTP response the classifier receives (during its first attempt, or during
  its second attempt after a retried first one): with a status other than 200 (so also
  401) \<^verbatim>\<open>is_buy_signal\<close> logs the error and returns false. With status 200 it decodes the
  body; a body that is not JSON, or is not a non-empty list, gives a logged error and
  false; so does a list whose first element has no \<^verbatim>\<open>get\<close> or whose
  \<^verbatim>\<open>generated_text\<close> is not a string. Otherwise the first element's
  \<^verbatim>\<open>generated_text\<close> (the empty string when the key is missing) is stripped of white
  space and upper-cased, and the call returns whether the result is exactly \<^verbatim>\<open>YES\<close>.
\<close>

theorem is_buy_signal_on_response:
  assumes "probe (nws k) = None" and "post (nws k) = Inr resp"
    and "k = 1 \<or>
         k = 2 \<and> (\<exists>e. outcome (is_buy_signal_fn txt (nws 1)) = Inl e \<and>
                       (is_ConnectError e \<or> is_TimeoutException e))"
  shows "(status_code resp \<noteq> 200 \<longrightarrow>
            outcome (is_buy_signal txt nws) = Inr False \<and>
            Log ERROR ''API error'' \<in> set (events (is_buy_signal txt nws))) \<and>
         (status_code resp = 200 \<and> resp_json resp = None \<longrightarrow>
            outcome (is_buy_signal txt nws) = Inr False \<and>
            Log ERROR ''Analysis error'' \<in> set (events (is_buy_signal txt nws))) \<and>
         (\<forall>j. status_code resp = 200 \<and> resp_json resp = Some j \<and>
               (\<forall>r0 rs. j \<noteq> JList (r0 # rs)) \<longrightarrow>
            outcome (is_buy_signal txt nws) = Inr False \<and>
            Log ERROR ''Invalid API response'' \<in> set (events (is_buy_signal txt nws))) \<and>
         (\<forall>r0 rs. status_code resp = 200 \<and> resp_json resp = Some (JList (r0 # rs)) \<and>
               (\<forall>s. dict_get r0 (lit ''generated_text'') (JStr []) \<noteq> Inr (JStr s)) \<longrightarrow>
            outcome (is_buy_signal txt nws) = Inr False \<and>
            Log ERROR ''Analysis error'' \<in> set (events (is_buy_signal txt nws))) \<and>
         (\<forall>r0 rs s. status_code resp = 200 \<and> resp_json resp = Some (JList (r0 # rs)) \<and>
               dict_get r0 (lit ''generated_text'') (JStr []) = Inr (JStr s) \<longrightarrow>
            outcome (is_buy_signal txt nws) = Inr (py_upper (py_strip s) = lit ''YES'') \<and>
            Log INFO ''API response'' \<in> set (events (is_buy_signal txt nws)))"
proof -
  from assms(3) have third:
    "k = 1 \<or> k = 2 \<and> (\<exists>e. outcome (is_buy_signal_fn txt (nws 1)) = Inl e \<and> retry_if_transport e)"
    by (simp add: retry_if_transport_def)
  have o: "outcome (is_buy_signal txt nws) = Inr (answer_of resp)"
    using assms(1,2) third by (rule is_buy_signal_of_response)
  have e: "set (response_log resp) \<subseteq> set (events (is_buy_signal txt nws))"
    using assms(1,2) third by (rule is_buy_signal_of_response)
  show ?thesis
  proof (intro conjI allI impI)
    assume "status_code resp \<noteq> 200"
    then show "outcome (is_buy_signal txt nws) = Inr False"
      and "Log ERROR ''API error'' \<in> set (events (is_buy_signal txt nws))"
      using o e answer_of_status [of resp] response_log_status [of resp] by auto
  next
    assume "status_code resp = 200 \<and> resp_json resp = None"
    then show "outcome (is_buy_signal txt nws) = Inr False"
      and "Log ERROR ''Analysis error'' \<in> set (events (is_buy_signal txt nws))"
      using o e answer_of_not_json [of resp] by auto
  next
    fix j
    assume "status_code resp = 200 \<and> resp_json resp = Some j \<and> (\<forall>r0 rs. j \<noteq> JList (r0 # rs))"
    then show "outcome (is_buy_signal txt nws) = Inr False"
      and "Log ERROR ''Invalid API response'' \<in> set (events (is_buy_signal txt nws))"
      using o e answer_of_not_list [of resp j] by auto
  next
    fix r0 rs
    assume "status_code resp = 200 \<and> resp_json resp = Some (JList (r0 # rs)) \<and>
      (\<forall>s. dict_get r0 (lit ''generated_text'') (JStr []) \<noteq> Inr (JStr s))"
    then show "outcome (is_buy_signal txt nws) = Inr False"
      and "Log ERROR ''Analysis error'' \<in> set (events (is_buy_signal txt nws))"
      using o e answer_of_no_text [of resp r0 rs] by auto
  next
    fix r0 rs s
    assume "status_code resp = 200 \<and> resp_json resp = Some (JList (r0 # rs)) \<and>
      dict_get r0 (lit ''generated_text'') (JStr []) = Inr (JStr s)"
    then show "outcome (is_buy_signal txt nws) = Inr (py_upper (py_strip s) = lit ''YES'')"
      and "Log INFO ''API response'' \<in> set (events (is_buy_signal txt nws))"
      using o e answer_of_text [of resp r0 rs s] by auto
  qed
qed

theorem is_buy_signal_on_response_witness:
  "outcome (is_buy_signal (lit ''Buy $XYZ now!!'')
      (always (answering 200 (Some (generated (lit '' yes '')))))) = Inr True \<and>
   outcome (is_buy_signal (lit ''Buy $XYZ now!!'')
      (always (answering 200 (Some (generated (lit ''no'')))))) = Inr False \<and>
   outcome (is_buy_signal (lit ''Buy $XYZ now!!'')
      (always (answering 200 (Some (generated ([0xA0] @ lit ''yes'' @ [0xA0])))))) = Inr True \<and>
   outcome (is_buy_signal (lit ''Buy $XYZ now!!'')
      (always (answering 200 (Some (generated (lit ''ye'' @ [0x17F])))))) = Inr True \<and>
   outcome (is_buy_signal (lit ''Buy $XYZ now!!'')
      (always (answering 200 (Some (JList []))))) = Inr False \<and>
   outcome (is_buy_signal (lit ''Buy $XYZ now!!'')
      (always (answering 200 (Some (JStr (lit ''yes'')))))) = Inr False \<and>
   outcome (is_buy_signal (lit ''Buy $XYZ now!!'')
      (always (answering 200 (Some (JList [JStr (lit ''yes'')]))))) = Inr False \<and>
   outcome (is_buy_signal (lit ''Buy $XYZ now!!'')
      (always (answering 200 (Some (JList [JObj [(lit ''generated_text'', JNull)]]))))) = Inr False \<and>
   outcome (is_buy_signal (lit ''Buy $XYZ now!!'')
      (always (answering 200 None))) = Inr False \<and>
   outcome (is_buy_signal (lit ''Buy $XYZ now!!'')
      (always (answering 401 (Some (generated (lit '' yes '')))))) = Inr False \<and>
   outcome (is_buy_signal (lit ''Buy $XYZ now!!'')
      (first_then (failing ReadTimeout) (answering 200 (Some (generated (lit '' yes '')))))) = Inr True"
proof -
  let ?t = "lit ''Buy $XYZ now!!''"
  have 1: "outcome (is_buy_signal ?t
      (always (answering 200 (Some (generated (lit '' yes '')))))) = Inr True"
    using is_buy_signal_on_response
      [of "always (answering 200 (Some (generated (lit '' yes ''))))" 1
          "reply 200 (Some (generated (lit '' yes '')))" ?t]
    by (simp add: generated_def generated_text strip_upper_yes)
  have 2: "outcome (is_buy_signal ?t
      (always (answering 200 (Some (generated (lit ''no'')))))) = Inr False"
    using is_buy_signal_on_response
      [of "always (answering 200 (Some (generated (lit ''no''))))" 1
          "reply 200 (Some (generated (lit ''no'')))" ?t]
    by (simp add: generated_def generated_text strip_upper_no)
  have 3: "outcome (is_buy_signal ?t
      (always (answering 200 (Some (generated ([0xA0] @ lit ''yes'' @ [0xA0])))))) = Inr True"
    using is_buy_signal_on_response
      [of "always (answering 200 (Some (generated ([0xA0] @ lit ''yes'' @ [0xA0]))))" 1
          "reply 200 (Some (generated ([0xA0] @ lit ''yes'' @ [0xA0])))" ?t]
    by (simp add: generated_def generated_text strip_upper_nbsp del: append.simps)
  have 4: "outcome (is_buy_signal ?t
      (always (answering 200 (Some (generated (lit ''ye'' @ [0x17F])))))) = Inr True"
    using is_buy_signal_on_response
      [of "always (answering 200 (Some (generated (lit ''ye'' @ [0x17F]))))" 1
          "reply 200 (Some (generated (lit ''ye'' @ [0x17F])))" ?t]
    by (simp add: generated_def generated_text strip_upper_long_s)
  have 5: "outcome (is_buy_signal ?t (always (answering 200 (Some (JList []))))) = Inr False"
    using is_buy_signal_on_response
      [of "always (answering 200 (Some (JList [])))" 1 "reply 200 (Some (JList []))" ?t]
    by simp
  have 6: "outcome (is_buy_signal ?t
      (always (answering 200 (Some (JStr (lit ''yes'')))))) = Inr False"
    using is_buy_signal_on_response
      [of "always (answering 200 (Some (JStr (lit ''yes''))))" 1
          "reply 200 (Some (JStr (lit ''yes'')))" ?t]
    by simp
  have 7: "outcome (is_buy_signal ?t
      (always (answering 200 (Some (JList [JStr (lit ''yes'')]))))) = Inr False"
    using is_buy_signal_on_response
      [of "always (answering 200 (Some (JList [JStr (lit ''yes'')])))" 1
          "reply 200 (Some (JList [JStr (lit ''yes'')]))" ?t]
    by (simp add: dict_get_def)
  have 8: "outcome (is_buy_signal ?t
      (always (answering 200 (Some (JList [JObj [(lit ''generated_text'', JNull)]]))))) = Inr False"
    using is_buy_signal_on_response
      [of "always (answering 200 (Some (JList [JObj [(lit ''generated_text'', JNull)]])))" 1
          "reply 200 (Some (JList [JObj [(lit ''generated_text'', JNull)]]))" ?t]
    by (simp add: generated_text)
  have 9: "outcome (is_buy_signal ?t (always (answering 200 None))) = Inr False"
    using is_buy_signal_on_response [of "always (answering 200 None)" 1 "reply 200 None" ?t]
    by simp
  have 10: "outcome (is_buy_signal ?t
      (always (answering 401 (Some (generated (lit '' yes '')))))) = Inr False"
    using is_buy_signal_on_response
      [of "always (answering 401 (Some (generated (lit '' yes ''))))" 1
          "reply 401 (Some (generated (lit '' yes '')))" ?t]
    by simp
  have 11: "outcome (is_buy_signal ?t
      (first_then (failing ReadTimeout) (answering 200 (Some (generated (lit '' yes '')))))) = Inr True"
    using is_buy_signal_on_response
      [of "first_then (failing ReadTimeout) (answering 200 (Some (generated (lit '' yes ''))))" 2
          "reply 200 (Some (generated (lit '' yes '')))" ?t]
    by (simp add: generated_def generated_text strip_upper_yes fn_failing)
  from 1 2 3 4 5 6 7 8 9 10 11 show ?thesis by blast
qed

section \<open>C2: the retry policy\<close>

text \<open>
  C2. The wrapper calls the function again exactly when the first call raises a connect
  failure or a timeout: a returned value and any other exception end the call after one
  attempt, unchanged. A retried call sleeps 2 and makes the second, last attempt: its
  value is returned, an exception of another type is raised as it is, and a second
  connect failure or timeout is raised wrapped in tenacity's \<^verbatim>\<open>RetryError\<close>. There
  are at most 2 attempts, and the backoff delay of every attempt number lies in \<open>[2, 15]\<close>
  and never decreases.
\<close>

theorem retry_policy:
  "(\<forall>b. outcome (is_buy_signal_fn txt (nws 1)) = Inr b \<longrightarrow>
      is_buy_signal txt nws = is_buy_signal_fn txt (nws 1)) \<and>
   (\<forall>e. outcome (is_buy_signal_fn txt (nws 1)) = Inl e \<and>
        \<not> (is_ConnectError e \<or> is_TimeoutException e) \<longrightarrow>
      is_buy_signal txt nws = is_buy_signal_fn txt (nws 1)) \<and>
   (\<forall>e. outcome (is_buy_signal_fn txt (nws 1)) = Inl e \<and>
        (is_ConnectError e \<or> is_TimeoutException e) \<longrightarrow>
      events (is_buy_signal txt nws) =
        events (is_buy_signal_fn txt (nws 1)) @ [Sleep 2] @ events (is_buy_signal_fn txt (nws 2)) \<and>
      outcome (is_buy_signal txt nws) =
        (case outcome (is_buy_signal_fn txt (nws 2)) of
           Inr b \<Rightarrow> Inr b
         | Inl e' \<Rightarrow>
             Inl (if is_ConnectError e' \<or> is_TimeoutException e' then RetryError e' else e'))) \<and>
   attempts (events (is_buy_signal_fn txt (nws 1))) = 1 \<and>
   attempts (events (is_buy_signal txt nws)) \<le> 2 \<and>
   (\<forall>k. 2 \<le> wait_exponential 1 2 15 k \<and> wait_exponential 1 2 15 k \<le> 15 \<and>
        wait_exponential 1 2 15 k \<le> wait_exponential 1 2 15 (Suc k))"
proof (intro conjI allI impI)
  fix b assume "outcome (is_buy_signal_fn txt (nws 1)) = Inr b"
  then show "is_buy_signal txt nws = is_buy_signal_fn txt (nws 1)"
    by (rule first_returns)
next
  fix e
  assume "outcome (is_buy_signal_fn txt (nws 1)) = Inl e \<and>
    \<not> (is_ConnectError e \<or> is_TimeoutException e)"
  then show "is_buy_signal txt nws = is_buy_signal_fn txt (nws 1)"
    using first_not_retried [of _ nws e] by (simp add: retry_if_transport_iff)
next
  fix e
  assume a: "outcome (is_buy_signal_fn txt (nws 1)) = Inl e \<and>
    (is_ConnectError e \<or> is_TimeoutException e)"
  then show "events (is_buy_signal txt nws) =
      events (is_buy_signal_fn txt (nws 1)) @ [Sleep 2] @ events (is_buy_signal_fn txt (nws 2))"
    using first_retried_events [of _ nws e] by (simp add: retry_if_transport_iff)
  from a show "outcome (is_buy_signal txt nws) =
      (case outcome (is_buy_signal_fn txt (nws 2)) of
         Inr b \<Rightarrow> Inr b
       | Inl e' \<Rightarrow>
           Inl (if is_ConnectError e' \<or> is_TimeoutException e' then RetryError e' else e'))"
    using first_retried_outcome [of _ nws e] unfolding retry_if_transport_def by simp
next
  show "attempts (events (is_buy_signal_fn txt (nws 1))) = 1"
    by (rule fn_attempts)
next
  show "attempts (events (is_buy_signal txt nws)) \<le> 2"
    by (rule is_buy_signal_attempts)
next
  fix k
  show "2 \<le> wait_exponential 1 2 15 k" "wait_exponential 1 2 15 k \<le> 15"
    by (rule wait_bounds)+
  show "wait_exponential 1 2 15 k \<le> wait_exponential 1 2 15 (Suc k)"
    by (rule wait_mono)
qed

theorem retry_policy_witness:
  "is_buy_signal (lit ''Buy $XYZ now!!'') (always (failing ConnectError)) =
     ([OpenConnection HF_HOST 443, HttpPost HF_API_URL (create_prompt (lit ''Buy $XYZ now!!'')),
       Log ERROR ''Connection error'', Sleep 2,
       OpenConnection HF_HOST 443, HttpPost HF_API_URL (create_prompt (lit ''Buy $XYZ now!!'')),
       Log ERROR ''Connection error''],
      Inl (RetryError ConnectError)) \<and>
   is_buy_signal (lit ''Buy $XYZ now!!'') (first_then (failing ReadTimeout) (failing ReadError)) =
     ([OpenConnection HF_HOST 443, HttpPost HF_API_URL (create_prompt (lit ''Buy $XYZ now!!'')),
       Log ERROR ''Connection error'', Sleep 2,
       OpenConnection HF_HOST 443, HttpPost HF_API_URL (create_prompt (lit ''Buy $XYZ now!!'')),
       Log ERROR ''Connection error''],
      Inl ReadError) \<and>
   is_buy_signal (lit ''Buy $XYZ now!!'') (always (failing ReadError)) =
     ([OpenConnection HF_HOST 443, HttpPost HF_API_URL (create_prompt (lit ''Buy $XYZ now!!'')),
       Log ERROR ''Connection error''],
      Inl ReadError) \<and>
   outcome (is_buy_signal (lit ''Buy $XYZ now!!'')
      (first_then (failing ConnectError) (answering 200 (Some (generated (lit '' yes '')))))) =
     Inr True"
proof -
  let ?t = "lit ''Buy $XYZ now!!''"
  have 1: "is_buy_signal ?t (always (failing ConnectError)) =
     ([OpenConnection HF_HOST 443, HttpPost HF_API_URL (create_prompt ?t),
       Log ERROR ''Connection error'', Sleep 2,
       OpenConnection HF_HOST 443, HttpPost HF_API_URL (create_prompt ?t),
       Log ERROR ''Connection error''],
      Inl (RetryError ConnectError))"
    using retry_policy [of ?t "always (failing ConnectError)"]
    by (intro io_eqI) (simp_all add: failing_attempt)
  have 2: "is_buy_signal ?t (first_then (failing ReadTimeout) (failing ReadError)) =
     ([OpenConnection HF_HOST 443, HttpPost HF_API_URL (create_prompt ?t),
       Log ERROR ''Connection error'', Sleep 2,
       OpenConnection HF_HOST 443, HttpPost HF_API_URL (create_prompt ?t),
       Log ERROR ''Connection error''],
      Inl ReadError)"
    using retry_policy [of ?t "first_then (failing ReadTimeout) (failing ReadError)"]
    by (intro io_eqI) (simp_all add: failing_attempt)
  have 3: "is_buy_signal ?t (always (failing ReadError)) =
     ([OpenConnection HF_HOST 443, HttpPost HF_API_URL (create_prompt ?t),
       Log ERROR ''Connection error''],
      Inl ReadError)"
    using retry_policy [of ?t "always (failing ReadError)"]
    by (simp add: failing_attempt)
  have 4: "outcome (is_buy_signal ?t
      (first_then (failing ConnectError) (answering 200 (Some (generated (lit '' yes '')))))) =
     Inr True"
    using retry_policy
      [of ?t "first_then (failing ConnectError) (answering 200 (Some (generated (lit '' yes ''))))"]
      fn_post_returns [of "answering 200 (Some (generated (lit '' yes '')))"
        "reply 200 (Some (generated (lit '' yes '')))" ?t]
    by (simp add: failing_attempt answer_of_def generated_def generated_text strip_upper_yes)
  from 1 2 3 4 show ?thesis by blast
qed

text \<open>Against the claim as stated: after two connect failures the caller does not get the
  connect failure but a \<^verbatim>\<open>RetryError\<close>, which is neither a connect failure nor a
  timeout.\<close>

theorem retry_exhausted_counterexample:
  "outcome (is_buy_signal (lit ''Buy $XYZ now!!'') (always (failing ConnectError))) =
     Inl (RetryError ConnectError) \<and>
   outcome (is_buy_signal (lit ''Buy $XYZ now!!'') (always (failing ConnectError))) \<noteq>
     Inl ConnectError \<and>
   \<not> is_ConnectError (RetryError ConnectError) \<and>
   \<not> is_TimeoutException (RetryError ConnectError)"
proof -
  have "outcome (is_buy_signal_fn (lit ''Buy $XYZ now!!'') (always (failing ConnectError) 1)) =
      Inl ConnectError"
    by (simp add: failing_attempt)
  then have "outcome (is_buy_signal (lit ''Buy $XYZ now!!'') (always (failing ConnectError))) =
      Inl (RetryError ConnectError)"
    by (simp add: first_retried_outcome [of _ _ ConnectError] retry_if_transport_def failing_attempt)
  then show ?thesis by simp
qed

section \<open>C3: exceptions of the classification call\<close>





section \<open>C6: the reachability probe\<close>

text \<open>
  C6. When the probe of an attempt fails, that is, opening the connection to the
  endpoint's host on port 443 raises an \<^verbatim>\<open>OSError\<close> (\<^verbatim>\<open>socket.gaierror\<close> is one),
  the attempt logs the failure and returns false: it posts nothing and raises nothing,
  whatever the text. When it is the first attempt, this is all the call does; when it is
  the second, after a retried first one, the call returns false as well.
\<close>

theorem probe_failure_short_circuits:
  assumes "probe (nws k) = Some e" and "is_OSError e"
    and "k = 1 \<or>
         k = 2 \<and> (\<exists>e1. outcome (is_buy_signal_fn txt (nws 1)) = Inl e1 \<and>
                        (is_ConnectError e1 \<or> is_TimeoutException e1))"
  shows "is_buy_signal_fn txt (nws k) =
           ([OpenConnection HF_HOST 443, Log ERROR ''Network error''], Inr False) \<and>
         filter is_HttpPost (events (is_buy_signal_fn txt (nws k))) = [] \<and>
         outcome (is_buy_signal txt nws) = Inr False \<and>
         (k = 1 \<longrightarrow>
            is_buy_signal txt nws =
              ([OpenConnection HF_HOST 443, Log ERROR ''Network error''], Inr False)) \<and>
         (k = 2 \<longrightarrow>
            events (is_buy_signal txt nws) =
              events (is_buy_signal_fn txt (nws 1)) @
              [Sleep 2, OpenConnection HF_HOST 443, Log ERROR ''Network error''])"
proof -
  from assms(3) have made: "k = 1 \<or> k = 2 \<and>
      (\<exists>e. outcome (is_buy_signal_fn txt (nws 1)) = Inl e \<and> retry_if_transport e)"
    by (simp add: retry_if_transport_def)
  have fn: "is_buy_signal_fn txt (nws k) =
      ([OpenConnection HF_HOST 443, Log ERROR ''Network error''], Inr False)"
    using assms(1,2) by (rule fn_probe_down)
  then have o: "outcome (is_buy_signal_fn txt (nws k)) = Inr False" by simp
  have whole: "outcome (is_buy_signal txt nws) = Inr False"
    using made o by (rule attempt_returns)
  have one: "is_buy_signal txt nws =
      ([OpenConnection HF_HOST 443, Log ERROR ''Network error''], Inr False)" if "k = 1"
    using that fn by (simp add: first_returns [of _ _ False])
  have two: "events (is_buy_signal txt nws) =
      events (is_buy_signal_fn txt (nws 1)) @
      [Sleep 2, OpenConnection HF_HOST 443, Log ERROR ''Network error'']" if "k = 2"
  proof -
    from made that obtain e1 where "outcome (is_buy_signal_fn txt (nws 1)) = Inl e1"
      and "retry_if_transport e1" by auto
    then have "events (is_buy_signal txt nws) =
        events (is_buy_signal_fn txt (nws 1)) @ [Sleep 2] @ events (is_buy_signal_fn txt (nws 2))"
      by (rule first_retried_events)
    with fn that show ?thesis by simp
  qed
  from fn whole one two show ?thesis by simp
qed

theorem probe_failure_short_circuits_witness:
  "is_buy_signal (lit ''Buy $XYZ now!!'') (always unreachable) =
     ([OpenConnection HF_HOST 443, Log ERROR ''Network error''], Inr False) \<and>
   is_buy_signal (lit ''Buy $XYZ now!!'') (first_then (failing ConnectError) unreachable) =
     ([OpenConnection HF_HOST 443, HttpPost HF_API_URL (create_prompt (lit ''Buy $XYZ now!!'')),
       Log ERROR ''Connection error'', Sleep 2,
       OpenConnection HF_HOST 443, Log ERROR ''Network error''], Inr False)"
proof -
  let ?t = "lit ''Buy $XYZ now!!''"
  have 1: "is_buy_signal ?t (always unreachable) =
     ([OpenConnection HF_HOST 443, Log ERROR ''Network error''], Inr False)"
    using probe_failure_short_circuits [of "always unreachable" 1 OSError ?t]
    by simp
  have 2: "is_buy_signal ?t (first_then (failing ConnectError) unreachable) =
     ([OpenConnection HF_HOST 443, HttpPost HF_API_URL (create_prompt ?t),
       Log ERROR ''Connection error'', Sleep 2,
       OpenConnection HF_HOST 443, Log ERROR ''Network error''], Inr False)"
    using probe_failure_short_circuits
      [of "first_then (failing ConnectError) unreachable" 2 OSError ?t]
    by (intro io_eqI) (simp_all add: failing_attempt)
  from 1 2 show ?thesis by blast
qed

section \<open>C5: the items of the returned list\<close>

text \<open>
  C5. \<^verbatim>\<open>get_recent_tweets\<close> returns a list of at most 5 items, and every item of it
  has a text of at most 500 characters and a timestamp that carries the UTC offset and
  lies strictly after the scrape time minus one hour. When no exception leaves the loop,
  the list is exactly that of the first five entries that read and are recent, in page
  order; an entry that reads gives an item if and only if its timestamp is strictly after
  the cutoff, so an entry at or before the cutoff is left out.
\<close>

theorem get_recent_tweets_items:
  "\<exists>tweets.
     outcome (get_recent_tweets l now drv handle) = Inr tweets \<and>
     length tweets \<le> 5 \<and>
     (\<forall>tw\<in>set tweets.
        length (tw_text tw) \<le> 500 \<and> tzinfo (tw_time tw) = Some utc \<and>
        micros (tw_time tw) > now - 3600000000 \<and> tw_handle tw = handle) \<and>
     (\<forall>found.
        drv_get drv (nitter_url handle) = None \<and>
        drv_find_elements drv (nitter_url handle) = Inr found \<and>
        (\<forall>el\<in>set (take 5 found).
           case outcome (scrape_entry l handle
                  \<lparr>micros = now - 3600000000, tzinfo = Some utc\<rparr> el) of
             Inl e \<Rightarrow> is_NoSuchElementException e \<or> is_ValueError e
           | Inr r \<Rightarrow> True) \<longrightarrow>
        tweets =
          List.map_filter
            (\<lambda>el. case outcome (scrape_entry l handle
                     \<lparr>micros = now - 3600000000, tzinfo = Some utc\<rparr> el) of
                    Inr r \<Rightarrow> r
                  | Inl e \<Rightarrow> None)
            (take 5 found)) \<and>
     (\<forall>el c link p0 rest pieces d m.
        content el = Inr c \<and> href el = Inr (Some link) \<and>
        py_split link (lit ''/status/'') = p0 # rest # pieces \<and>
        title el = Inr (Some d) \<and>
        strptime l (py_replace d (lit '' UTC'') []) DATE_FORMAT = Some m \<longrightarrow>
        outcome (scrape_entry l handle \<lparr>micros = now - 3600000000, tzinfo = Some utc\<rparr> el) =
          Inr (if m > now - 3600000000
               then Some \<lparr>tw_text = take 500 c, tw_id = hd (py_split rest (lit ''#'')),
                          tw_handle = handle, tw_time = \<lparr>micros = m, tzinfo = Some utc\<rparr>\<rparr>
               else None))"
proof -
  let ?c = "\<lparr>micros = now - 3600000000, tzinfo = Some utc\<rparr>"
  obtain tweets where o: "outcome (get_recent_tweets l now drv handle) = Inr tweets"
    using get_recent_tweets_returns by blast
  have items: "length tweets \<le> 5 \<and>
     (\<forall>tw\<in>set tweets.
        length (tw_text tw) \<le> 500 \<and> tzinfo (tw_time tw) = Some utc \<and>
        micros (tw_time tw) > now - 3600000000 \<and> tw_handle tw = handle)"
  proof (cases "drv_get drv (nitter_url handle)")
    case (Some e)
    with o show ?thesis by (simp add: page_load_fails)
  next
    case None
    show ?thesis
    proof (cases "drv_find_elements drv (nitter_url handle)")
      case (Inl e)
      with None o show ?thesis by (simp add: find_elements_fails)
    next
      case (Inr found)
      obtain t tws exc where loop: "entries_loop l handle ?c (take 5 found) [] = (t, tws, exc)"
        by (cases "entries_loop l handle ?c (take 5 found) []")
      with None Inr o have "tws = tweets" by (simp add: page_loaded)
      with entries_loop_items [OF loop] show ?thesis by auto
    qed
  qed
  have exact: "tweets =
      List.map_filter
        (\<lambda>el. case outcome (scrape_entry l handle ?c el) of Inr r \<Rightarrow> r | Inl e \<Rightarrow> None)
        (take 5 found)"
    if "drv_get drv (nitter_url handle) = None \<and>
        drv_find_elements drv (nitter_url handle) = Inr found \<and>
        (\<forall>el\<in>set (take 5 found).
           case outcome (scrape_entry l handle ?c el) of
             Inl e \<Rightarrow> is_NoSuchElementException e \<or> is_ValueError e
           | Inr r \<Rightarrow> True)" for found
  proof -
    obtain t tws exc where loop: "entries_loop l handle ?c (take 5 found) [] = (t, tws, exc)"
      by (cases "entries_loop l handle ?c (take 5 found) []")
    with that o have "tws = tweets" by (simp add: page_loaded)
    moreover from that have "snd (entries_loop l handle ?c (take 5 found) []) =
        ([] @ List.map_filter
           (\<lambda>el. case outcome (scrape_entry l handle ?c el) of Inr r \<Rightarrow> r | Inl e \<Rightarrow> None)
           (take 5 found), None)"
      by (intro entries_loop_exact) simp
    ultimately show ?thesis using loop by simp
  qed
  have reads: "outcome (scrape_entry l handle ?c el) =
          Inr (if m > now - 3600000000
               then Some \<lparr>tw_text = take 500 c, tw_id = hd (py_split rest (lit ''#'')),
                          tw_handle = handle, tw_time = \<lparr>micros = m, tzinfo = Some utc\<rparr>\<rparr>
               else None)"
    if "content el = Inr c \<and> href el = Inr (Some link) \<and>
        py_split link (lit ''/status/'') = p0 # rest # pieces \<and>
        title el = Inr (Some d) \<and>
        strptime l (py_replace d (lit '' UTC'') []) DATE_FORMAT = Some m"
    for el c link p0 rest pieces d m
    using that scrape_entry_reads [of el c link p0 rest pieces d l m ?c handle] by simp
  from o items exact reads show ?thesis by blast
qed

theorem get_recent_tweets_items_witness:
  "outcome (get_recent_tweets example_calendar ten_o_clock
      (showing [entry ''Buy $XYZ now!!'' ''123'' ''9:30 AM'', entry ''Sell'' ''122'' ''9:00 AM'',
                entry ''gm'' ''121'' ''7:00 AM'', entry ''gm'' ''120'' ''yesterday'',
                entry_without_text, entry ''Buy more'' ''119'' ''9:30 AM''])
      (lit ''bob'')) =
     Inr [item ''Buy $XYZ now!!'' ''123'' 1793784600000000] \<and>
   length (tw_text (item ''Buy $XYZ now!!'' ''123'' 1793784600000000)) \<le> 500 \<and>
   tzinfo (tw_time (item ''Buy $XYZ now!!'' ''123'' 1793784600000000)) = Some utc \<and>
   micros (tw_time (item ''Buy $XYZ now!!'' ''123'' 1793784600000000)) > ten_o_clock - 3600000000"
  using get_recent_tweets_items [of example_calendar ten_o_clock
      "showing [entry ''Buy $XYZ now!!'' ''123'' ''9:30 AM'', entry ''Sell'' ''122'' ''9:00 AM'',
                entry ''gm'' ''121'' ''7:00 AM'', entry ''gm'' ''120'' ''yesterday'',
                entry_without_text, entry ''Buy more'' ''119'' ''9:30 AM'']"
      "lit ''bob''"]
  by (auto simp: entry_eval List.map_filter_simps)

section \<open>C10: a link without a status\<close>

text \<open>
  C10. The handler of the loop body catches \<^verbatim>\<open>NoSuchElementException\<close> and
  \<^verbatim>\<open>ValueError\<close> and nothing else: after such an exception the loop goes on with the
  next entry, after any other it ends. An entry whose link does not contain
  \<^verbatim>\<open>/status/\<close> raises \<^verbatim>\<open>IndexError\<close>, which is neither; so the loop ends there, the
  account-level handler logs the error, and \<^verbatim>\<open>get_recent_tweets\<close> returns the items
  collected before that entry, whatever entries follow it.
\<close>

theorem missing_status_escapes:
  assumes "content el = Inr c" and "href el = Inr (Some link)"
    and "\<not> sublist (lit ''/status/'') link"
  shows "scrape_entry l handle cutoff el = ([], Inl IndexError) \<and>
         \<not> is_NoSuchElementException IndexError \<and> \<not> is_ValueError IndexError \<and>
         entries_loop l handle cutoff (el # later) tweets = ([], tweets, Some IndexError) \<and>
         (\<forall>drv now before t tws.
            drv_get drv (nitter_url handle) = None \<and>
            drv_find_elements drv (nitter_url handle) = Inr (before @ el # later) \<and>
            length before < 5 \<and>
            entries_loop l handle \<lparr>micros = now - 3600000000, tzinfo = Some utc\<rparr> before [] =
              (t, tws, None) \<longrightarrow>
            get_recent_tweets l now drv handle =
              ([Log INFO ''Scraping'', DriverGet (nitter_url handle), Sleep 3,
                FindElements (lit ''.timeline-item''), Log DEBUG ''Found tweets''] @ t @
               [Log ERROR ''Scraping error'', Log INFO ''Found valid tweets''],
               Inr tws)) \<and>
         (\<forall>other te e.
            scrape_entry l handle cutoff other = (te, Inl e) \<longrightarrow>
            entries_loop l handle cutoff (other # later) tweets =
              (if is_NoSuchElementException e \<or> is_ValueError e
               then (case entries_loop l handle cutoff later tweets of
                       (t', r) \<Rightarrow> (te @ [Log DEBUG ''Skipping tweet''] @ t', r))
               else (te, tweets, Some e)))"
proof -
  have entry: "scrape_entry l handle cutoff el = ([], Inl IndexError)" for cutoff
    using assms by (rule scrape_entry_without_status)
  have loop: "entries_loop l handle cutoff (el # later) tweets = ([], tweets, Some IndexError)"
    by (simp add: entry)
  have page: "get_recent_tweets l now drv handle =
      ([Log INFO ''Scraping'', DriverGet (nitter_url handle), Sleep 3,
        FindElements (lit ''.timeline-item''), Log DEBUG ''Found tweets''] @ t @
       [Log ERROR ''Scraping error'', Log INFO ''Found valid tweets''],
       Inr tws)"
    if "drv_get drv (nitter_url handle) = None \<and>
        drv_find_elements drv (nitter_url handle) = Inr (before @ el # later) \<and>
        length before < 5 \<and>
        entries_loop l handle \<lparr>micros = now - 3600000000, tzinfo = Some utc\<rparr> before [] =
          (t, tws, None)"
    for drv now before t tws
    using that page_escape [of drv handle before el later l now t tws "[]" IndexError]
    by (simp add: entry)
  have handler: "entries_loop l handle cutoff (other # later) tweets =
      (if is_NoSuchElementException e \<or> is_ValueError e
       then (case entries_loop l handle cutoff later tweets of
               (t', r) \<Rightarrow> (te @ [Log DEBUG ''Skipping tweet''] @ t', r))
       else (te, tweets, Some e))"
    if "scrape_entry l handle cutoff other = (te, Inl e)" for other te e
    using that by simp
  show ?thesis
    by (intro conjI allI impI; (erule page | erule handler | rule entry | rule loop | simp))
qed

theorem missing_status_escapes_witness:
  "get_recent_tweets example_calendar ten_o_clock
     (showing [entry ''Buy $XYZ now!!'' ''123'' ''9:30 AM'', entry_without_status,
               entry ''Buy more'' ''119'' ''9:30 AM''])
     (lit ''bob'') =
   ([Log INFO ''Scraping'', DriverGet (nitter_url (lit ''bob'')), Sleep 3,
     FindElements (lit ''.timeline-item''), Log DEBUG ''Found tweets'', Log INFO ''New tweet'',
     Log ERROR ''Scraping error'', Log INFO ''Found valid tweets''],
    Inr [item ''Buy $XYZ now!!'' ''123'' 1793784600000000]) \<and>
   scrape_entry example_calendar (lit ''bob'')
     \<lparr>micros = ten_o_clock - 3600000000, tzinfo = Some utc\<rparr> entry_without_status =
   ([], Inl IndexError)"
proof -
  note t = missing_status_escapes [of entry_without_status "lit ''Pinned''"
      "lit ''https://nitter.net/bob''" example_calendar "lit ''bob''"
      "\<lparr>micros = ten_o_clock - 3600000000, tzinfo = Some utc\<rparr>"
      "[entry ''Buy more'' ''119'' ''9:30 AM'']" "[]"]
  have p: "content entry_without_status = Inr (lit ''Pinned'')"
    "href entry_without_status = Inr (Some (lit ''https://nitter.net/bob''))"
    by (simp_all add: entry_without_status_def)
  note u = t [OF p no_status_in_profile_link]
  have 1: "scrape_entry example_calendar (lit ''bob'')
     \<lparr>micros = ten_o_clock - 3600000000, tzinfo = Some utc\<rparr> entry_without_status =
     ([], Inl IndexError)"
    using u by (rule conjunct1)
  have 2: "get_recent_tweets example_calendar ten_o_clock
     (showing [entry ''Buy $XYZ now!!'' ''123'' ''9:30 AM'', entry_without_status,
               entry ''Buy more'' ''119'' ''9:30 AM''])
     (lit ''bob'') =
   ([Log INFO ''Scraping'', DriverGet (nitter_url (lit ''bob'')), Sleep 3,
     FindElements (lit ''.timeline-item''), Log DEBUG ''Found tweets'', Log INFO ''New tweet'',
     Log ERROR ''Scraping error'', Log INFO ''Found valid tweets''],
    Inr [item ''Buy $XYZ now!!'' ''123'' 1793784600000000])"
    using u [THEN conjunct2, THEN conjunct2, THEN conjunct2, THEN conjunct2, THEN conjunct1,
        rule_format,
        of "showing [entry ''Buy $XYZ now!!'' ''123'' ''9:30 AM'', entry_without_status,
               entry ''Buy more'' ''119'' ''9:30 AM'']"
           "[entry ''Buy $XYZ now!!'' ''123'' ''9:30 AM'']" ten_o_clock
           "[Log INFO ''New tweet'']" "[item ''Buy $XYZ now!!'' ''123'' 1793784600000000]"]
    by (simp add: recent_entry)
  from 1 2 show ?thesis by simp
qed

section \<open>C4: exceptions while an account is scraped\<close>

text \<open>
  C4, amended. \<^verbatim>\<open>get_recent_tweets\<close> never raises: it always returns a list. When
  loading the page or finding its entries raises, the exception is logged at error level
  and the list is empty. When the exception of an entry leaves the loop (it is neither a
  \<^verbatim>\<open>NoSuchElementException\<close> nor a \<^verbatim>\<open>ValueError\<close>), it is logged at error level
  and the list holds the items collected from the entries before it, which need not be
  empty.
\<close>

theorem get_recent_tweets_on_exception:
  "(\<exists>tweets. outcome (get_recent_tweets l now drv handle) = Inr tweets) \<and>
   (\<forall>e. drv_get drv (nitter_url handle) = Some e \<longrightarrow>
      get_recent_tweets l now drv handle =
        ([Log INFO ''Scraping'', DriverGet (nitter_url handle),
          Log ERROR ''Scraping error'', Log INFO ''Found valid tweets''], Inr [])) \<and>
   (\<forall>e. drv_get drv (nitter_url handle) = None \<and>
        drv_find_elements drv (nitter_url handle) = Inl e \<longrightarrow>
      get_recent_tweets l now drv handle =
        ([Log INFO ''Scraping'', DriverGet (nitter_url handle), Sleep 3,
          FindElements (lit ''.timeline-item''),
          Log ERROR ''Scraping error'', Log INFO ''Found valid tweets''], Inr [])) \<and>
   (\<forall>before el later t tws te e.
      drv_get drv (nitter_url handle) = None \<and>
      drv_find_elements drv (nitter_url handle) = Inr (before @ el # later) \<and>
      length before < 5 \<and>
      entries_loop l handle \<lparr>micros = now - 3600000000, tzinfo = Some utc\<rparr> before [] =
        (t, tws, None) \<and>
      scrape_entry l handle \<lparr>micros = now - 3600000000, tzinfo = Some utc\<rparr> el = (te, Inl e) \<and>
      \<not> (is_NoSuchElementException e \<or> is_ValueError e) \<longrightarrow>
      get_recent_tweets l now drv handle =
        ([Log INFO ''Scraping'', DriverGet (nitter_url handle), Sleep 3,
          FindElements (lit ''.timeline-item''), Log DEBUG ''Found tweets''] @ t @ te @
         [Log ERROR ''Scraping error'', Log INFO ''Found valid tweets''],
         Inr tws))"
proof (intro conjI allI impI)
  show "\<exists>tweets. outcome (get_recent_tweets l now drv handle) = Inr tweets"
    by (rule get_recent_tweets_returns)
next
  fix e assume "drv_get drv (nitter_url handle) = Some e"
  then show "get_recent_tweets l now drv handle =
        ([Log INFO ''Scraping'', DriverGet (nitter_url handle),
          Log ERROR ''Scraping error'', Log INFO ''Found valid tweets''], Inr [])"
    by (rule page_load_fails)
next
  fix e
  assume "drv_get drv (nitter_url handle) = None \<and>
        drv_find_elements drv (nitter_url handle) = Inl e"
  then show "get_recent_tweets l now drv handle =
        ([Log INFO ''Scraping'', DriverGet (nitter_url handle), Sleep 3,
          FindElements (lit ''.timeline-item''),
          Log ERROR ''Scraping error'', Log INFO ''Found valid tweets''], Inr [])"
    by (simp add: find_elements_fails)
next
  fix before el later t tws te e
  assume a: "drv_get drv (nitter_url handle) = None \<and>
      drv_find_elements drv (nitter_url handle) = Inr (before @ el # later) \<and>
      length before < 5 \<and>
      entries_loop l handle \<lparr>micros = now - 3600000000, tzinfo = Some utc\<rparr> before [] =
        (t, tws, None) \<and>
      scrape_entry l handle \<lparr>micros = now - 3600000000, tzinfo = Some utc\<rparr> el = (te, Inl e) \<and>
      \<not> (is_NoSuchElementException e \<or> is_ValueError e)"
  show "get_recent_tweets l now drv handle =
        ([Log INFO ''Scraping'', DriverGet (nitter_url handle), Sleep 3,
          FindElements (lit ''.timeline-item''), Log DEBUG ''Found tweets''] @ t @ te @
         [Log ERROR ''Scraping error'', Log INFO ''Found valid tweets''],
         Inr tws)"
    using a by (intro page_escape [of drv handle before el later l now t tws te e]) simp_all
qed

theorem get_recent_tweets_on_exception_witness:
  "get_recent_tweets example_calendar ten_o_clock (broken WebDriverException) (lit ''bob'') =
     ([Log INFO ''Scraping'', DriverGet (nitter_url (lit ''bob'')),
       Log ERROR ''Scraping error'', Log INFO ''Found valid tweets''], Inr []) \<and>
   get_recent_tweets example_calendar ten_o_clock
     (showing [entry ''Buy $XYZ now!!'' ''123'' ''9:30 AM'', entry_without_status,
               entry ''Buy more'' ''119'' ''9:30 AM''])
     (lit ''bob'') =
     ([Log INFO ''Scraping'', DriverGet (nitter_url (lit ''bob'')), Sleep 3,
       FindElements (lit ''.timeline-item''), Log DEBUG ''Found tweets'', Log INFO ''New tweet'',
       Log ERROR ''Scraping error'', Log INFO ''Found valid tweets''],
      Inr [item ''Buy $XYZ now!!'' ''123'' 1793784600000000])"
proof -
  have 1: "get_recent_tweets example_calendar ten_o_clock (broken WebDriverException)
      (lit ''bob'') =
     ([Log INFO ''Scraping'', DriverGet (nitter_url (lit ''bob'')),
       Log ERROR ''Scraping error'', Log INFO ''Found valid tweets''], Inr [])"
    using get_recent_tweets_on_exception
      [of example_calendar ten_o_clock "broken WebDriverException" "lit ''bob''",
       THEN conjunct2, THEN conjunct1, rule_format, of WebDriverException]
    by simp
  have 2: "get_recent_tweets example_calendar ten_o_clock
     (showing [entry ''Buy $XYZ now!!'' ''123'' ''9:30 AM'', entry_without_status,
               entry ''Buy more'' ''119'' ''9:30 AM''])
     (lit ''bob'') =
     ([Log INFO ''Scraping'', DriverGet (nitter_url (lit ''bob'')), Sleep 3,
       FindElements (lit ''.timeline-item''), Log DEBUG ''Found tweets'', Log INFO ''New tweet'',
       Log ERROR ''Scraping error'', Log INFO ''Found valid tweets''],
      Inr [item ''Buy $XYZ now!!'' ''123'' 1793784600000000])"
    using get_recent_tweets_on_exception
      [of example_calendar ten_o_clock
          "showing [entry ''Buy $XYZ now!!'' ''123'' ''9:30 AM'', entry_without_status,
               entry ''Buy more'' ''119'' ''9:30 AM'']" "lit ''bob''",
       THEN conjunct2, THEN conjunct2, THEN conjunct2, rule_format,
       of "[entry ''Buy $XYZ now!!'' ''123'' ''9:30 AM'']" entry_without_status
          "[entry ''Buy more'' ''119'' ''9:30 AM'']"
          "[Log INFO ''New tweet'']" "[item ''Buy $XYZ now!!'' ''123'' 1793784600000000]"
          "[]" IndexError]
    by (simp add: recent_entry statusless_entry)
  from 1 2 show ?thesis by simp
qed

text \<open>Against the claim as stated: the second entry of this page raises
  \<^verbatim>\<open>IndexError\<close>, which the account-level handler catches and logs, and the list
  returned for the account is not empty.\<close>

theorem partial_result_counterexample:
  "scrape_entry example_calendar (lit ''bob'')
     \<lparr>micros = ten_o_clock - 3600000000, tzinfo = Some utc\<rparr> entry_without_status =
     ([], Inl IndexError) \<and>
   Log ERROR ''Scraping error'' \<in> set (events (get_recent_tweets example_calendar ten_o_clock
     (showing [entry ''Buy $XYZ now!!'' ''123'' ''9:30 AM'', entry_without_status,
               entry ''Buy more'' ''119'' ''9:30 AM''])
     (lit ''bob''))) \<and>
   outcome (get_recent_tweets example_calendar ten_o_clock
     (showing [entry ''Buy $XYZ now!!'' ''123'' ''9:30 AM'', entry_without_status,
               entry ''Buy more'' ''119'' ''9:30 AM''])
     (lit ''bob'')) =
     Inr [item ''Buy $XYZ now!!'' ''123'' 1793784600000000] \<and>
   outcome (get_recent_tweets example_calendar ten_o_clock
     (showing [entry ''Buy $XYZ now!!'' ''123'' ''9:30 AM'', entry_without_status,
               entry ''Buy more'' ''119'' ''9:30 AM''])
     (lit ''bob'')) \<noteq> Inr []"
  by (simp add: page_with_pinned_entry statusless_entry)

section \<open>C7: one item does not stop the others\<close>



section \<open>C9: the alert\<close>

lemma lit_append: "lit (a @ b) = lit a @ lit b"
  by (simp add: lit_def)

lemma sublist_in: "ys = ps @ xs @ ss \<Longrightarrow> sublist xs ys"
  by (auto simp: sublist_def)

text \<open>
  C9. For an item classified true the step sends exactly one message, to the chat of
  \<^verbatim>\<open>GROUP_CHAT_ID\<close>; for any other item it sends none. The message is four lines:
  the alert marker and \<^verbatim>\<open>BUY ALERT from\<close> with the display name; the timestamp of
  the item, formatted with \<^verbatim>\<open>%Y-%m-%d %H:%M UTC\<close>; the first 200 characters of the
  text followed by three dots; and the link \<^verbatim>\<open>https://twitter.com/\<close>, handle,
  \<^verbatim>\<open>/status/\<close>, item identifier. So a cycle over one account with one item that is
  classified true sends exactly this one message.
\<close>

theorem alert_sent:
  "(outcome (is_buy_signal (tw_text tw) (network w i j)) = Inr True \<longrightarrow>
      filter is_SendMessage (events (process_tweet w i j handle name tw)) =
        [SendMessage (GROUP_CHAT_ID w) (alert_message (lib w) handle name tw)]) \<and>
   (outcome (is_buy_signal (tw_text tw) (network w i j)) \<noteq> Inr True \<longrightarrow>
      filter is_SendMessage (events (process_tweet w i j handle name tw)) = []) \<and>
   alert_message (lib w) handle name tw =
     [0xF8FF, 0xFC, 0xF6, 0xAE] @ lit '' BUY ALERT from '' @ name @ [0x0A] @
     [0xF8FF, 0xFC, 0xEC, 0xD6] @ lit '' '' @
       strftime (lib w) (tw_time tw) (lit ''%Y-%m-%d %H:%M UTC'') @ [0x0A] @
     [0xF8FF, 0xFC, 0xEC, 0xF9] @ lit '' '' @ take 200 (tw_text tw) @ lit ''...'' @ [0x0A] @
     [0xF8FF, 0xFC, 0xEE, 0xF3] @ lit '' https://twitter.com/'' @ handle @
       lit ''/status/'' @ tw_id tw \<and>
   sublist (lit ''BUY ALERT'') (alert_message (lib w) handle name tw) \<and>
   sublist name (alert_message (lib w) handle name tw) \<and>
   sublist (strftime (lib w) (tw_time tw) (lit ''%Y-%m-%d %H:%M UTC''))
     (alert_message (lib w) handle name tw) \<and>
   sublist (take 200 (tw_text tw) @ lit ''...'') (alert_message (lib w) handle name tw) \<and>
   length (take 200 (tw_text tw)) \<le> 200 \<and>
   sublist (lit ''https://twitter.com/'' @ handle @ lit ''/status/'' @ tw_id tw)
     (alert_message (lib w) handle name tw) \<and>
   (chrome w = None \<and>
    outcome (get_recent_tweets (lib w) (clock w 0) (driver w) handle) = Inr [tw] \<and>
    outcome (is_buy_signal (tw_text tw) (network w 0 0)) = Inr True \<longrightarrow>
      filter is_SendMessage (events (run_cycle [(handle, name)] w)) =
        [SendMessage (GROUP_CHAT_ID w) (alert_message (lib w) handle name tw)])"
proof (intro conjI impI)
  assume "outcome (is_buy_signal (tw_text tw) (network w i j)) = Inr True"
  then show "filter is_SendMessage (events (process_tweet w i j handle name tw)) =
        [SendMessage (GROUP_CHAT_ID w) (alert_message (lib w) handle name tw)]"
    by (simp add: process_tweet_sends)
next
  assume "outcome (is_buy_signal (tw_text tw) (network w i j)) \<noteq> Inr True"
  then show "filter is_SendMessage (events (process_tweet w i j handle name tw)) = []"
    by (simp add: process_tweet_sends)
next
  show "alert_message (lib w) handle name tw =
     [0xF8FF, 0xFC, 0xF6, 0xAE] @ lit '' BUY ALERT from '' @ name @ [0x0A] @
     [0xF8FF, 0xFC, 0xEC, 0xD6] @ lit '' '' @
       strftime (lib w) (tw_time tw) (lit ''%Y-%m-%d %H:%M UTC'') @ [0x0A] @
     [0xF8FF, 0xFC, 0xEC, 0xF9] @ lit '' '' @ take 200 (tw_text tw) @ lit ''...'' @ [0x0A] @
     [0xF8FF, 0xFC, 0xEE, 0xF3] @ lit '' https://twitter.com/'' @ handle @
       lit ''/status/'' @ tw_id tw"
    by (simp add: alert_message_def)
next
  have "lit '' BUY ALERT from '' = lit '' '' @ lit ''BUY ALERT'' @ lit '' from ''"
    by (simp add: lit_def)
  then show "sublist (lit ''BUY ALERT'') (alert_message (lib w) handle name tw)"
    by (intro sublist_in [where ps = "[0xF8FF, 0xFC, 0xF6, 0xAE] @ lit '' ''"])
       (simp add: alert_message_def)
next
  show "sublist name (alert_message (lib w) handle name tw)"
    by (intro sublist_in [where ps = "[0xF8FF, 0xFC, 0xF6, 0xAE] @ lit '' BUY ALERT from ''"])
       (simp add: alert_message_def)
next
  show "sublist (strftime (lib w) (tw_time tw) (lit ''%Y-%m-%d %H:%M UTC''))
     (alert_message (lib w) handle name tw)"
    by (intro sublist_in [where ps = "[0xF8FF, 0xFC, 0xF6, 0xAE] @ lit '' BUY ALERT from '' @
          name @ [0x0A] @ [0xF8FF, 0xFC, 0xEC, 0xD6] @ lit '' ''"])
       (simp add: alert_message_def)
next
  show "sublist (take 200 (tw_text tw) @ lit ''...'') (alert_message (lib w) handle name tw)"
    by (intro sublist_in [where ps = "[0xF8FF, 0xFC, 0xF6, 0xAE] @ lit '' BUY ALERT from '' @
          name @ [0x0A] @ [0xF8FF, 0xFC, 0xEC, 0xD6] @ lit '' '' @
          strftime (lib w) (tw_time tw) (lit ''%Y-%m-%d %H:%M UTC'') @ [0x0A] @
          [0xF8FF, 0xFC, 0xEC, 0xF9] @ lit '' ''"])
       (simp add: alert_message_def)
next
  show "length (take 200 (tw_text tw)) \<le> 200" by simp
next
  have "lit '' https://twitter.com/'' = lit '' '' @ lit ''https://twitter.com/''"
    by (simp add: lit_def)
  then show "sublist (lit ''https://twitter.com/'' @ handle @ lit ''/status/'' @ tw_id tw)
     (alert_message (lib w) handle name tw)"
    by (intro sublist_in [where ss = "[]" and ps = "[0xF8FF, 0xFC, 0xF6, 0xAE] @
          lit '' BUY ALERT from '' @
          name @ [0x0A] @ [0xF8FF, 0xFC, 0xEC, 0xD6] @ lit '' '' @
          strftime (lib w) (tw_time tw) (lit ''%Y-%m-%d %H:%M UTC'') @ [0x0A] @
          [0xF8FF, 0xFC, 0xEC, 0xF9] @ lit '' '' @ take 200 (tw_text tw) @ lit ''...'' @ [0x0A] @
          [0xF8FF, 0xFC, 0xEE, 0xF3] @ lit '' ''"])
       (simp add: alert_message_def)
next
  assume a: "chrome w = None \<and>
    outcome (get_recent_tweets (lib w) (clock w 0) (driver w) handle) = Inr [tw] \<and>
    outcome (is_buy_signal (tw_text tw) (network w 0 0)) = Inr True"
  then have c: "chrome w = None"
    and g: "outcome (get_recent_tweets (lib w) (clock w 0) (driver w) handle) = Inr [tw]"
    by simp_all
  from a show "filter is_SendMessage (events (run_cycle [(handle, name)] w)) =
        [SendMessage (GROUP_CHAT_ID w) (alert_message (lib w) handle name tw)]"
    by (simp add: single_account(2) [OF c g] tweets_loop_step process_tweet_sends ret_def
        del: tweets_loop.simps(2))
qed

theorem alert_sent_witness:
  "filter is_SendMessage (events (run_cycle [(lit ''bob'', lit ''Bob'')]
      (example_world None
         (showing [entry ''Buy $XYZ now!!'' ''123'' ''9:30 AM'']) every_item_yes))) =
     [SendMessage (Some (lit ''-1001234''))
        ([0xF8FF, 0xFC, 0xF6, 0xAE] @ lit '' BUY ALERT from Bob'' @ [0x0A] @
         [0xF8FF, 0xFC, 0xEC, 0xD6] @ lit '' 2026-11-04 09:30 UTC'' @ [0x0A] @
         [0xF8FF, 0xFC, 0xEC, 0xF9] @ lit '' Buy $XYZ now!!...'' @ [0x0A] @
         [0xF8FF, 0xFC, 0xEE, 0xF3] @ lit '' https://twitter.com/bob/status/123'')] \<and>
   filter is_SendMessage (events (process_tweet
      (example_world None
         (showing [entry ''Buy $XYZ now!!'' ''123'' ''9:30 AM'']) every_item_yes)
      0 0 (lit ''bob'') (lit ''Bob'') (item ''Buy $XYZ now!!'' ''123'' 1793784600000000))) =
     [SendMessage (Some (lit ''-1001234''))
        (alert_message example_calendar (lit ''bob'') (lit ''Bob'')
           (item ''Buy $XYZ now!!'' ''123'' 1793784600000000))]"
proof -
  have m: "alert_message example_calendar (lit ''bob'') (lit ''Bob'')
      (item ''Buy $XYZ now!!'' ''123'' 1793784600000000) =
     [0xF8FF, 0xFC, 0xF6, 0xAE] @ lit '' BUY ALERT from Bob'' @ [0x0A] @
     [0xF8FF, 0xFC, 0xEC, 0xD6] @ lit '' 2026-11-04 09:30 UTC'' @ [0x0A] @
     [0xF8FF, 0xFC, 0xEC, 0xF9] @ lit '' Buy $XYZ now!!...'' @ [0x0A] @
     [0xF8FF, 0xFC, 0xEE, 0xF3] @ lit '' https://twitter.com/bob/status/123''"
    by (simp add: alert_message_def item_def example_calendar_def lit_def)
  note t = alert_sent
      [of "item ''Buy $XYZ now!!'' ''123'' 1793784600000000"
          "example_world None
             (showing [entry ''Buy $XYZ now!!'' ''123'' ''9:30 AM'']) every_item_yes"
          0 0 "lit ''bob''" "lit ''Bob''"]
  have c: "filter is_SendMessage (events (run_cycle [(lit ''bob'', lit ''Bob'')]
      (example_world None
         (showing [entry ''Buy $XYZ now!!'' ''123'' ''9:30 AM'']) every_item_yes))) =
     [SendMessage (Some (lit ''-1001234''))
        (alert_message example_calendar (lit ''bob'') (lit ''Bob'')
           (item ''Buy $XYZ now!!'' ''123'' 1793784600000000))]"
    using t by (simp add: one_recent_entry every_item_yes_def says_yes)
  have p: "filter is_SendMessage (events (process_tweet
      (example_world None
         (showing [entry ''Buy $XYZ now!!'' ''123'' ''9:30 AM'']) every_item_yes)
      0 0 (lit ''bob'') (lit ''Bob'') (item ''Buy $XYZ now!!'' ''123'' 1793784600000000))) =
     [SendMessage (Some (lit ''-1001234''))
        (alert_message example_calendar (lit ''bob'') (lit ''Bob'')
           (item ''Buy $XYZ now!!'' ''123'' 1793784600000000))]"
    using t by (simp add: every_item_yes_def says_yes)
  from c p show ?thesis unfolding m by simp
qed

section \<open>C8: the frame of the cycle\<close>

text \<open>
  C8, amended. The scraper is built before the \<^verbatim>\<open>try\<close>. When Chrome starts, the
  cycle returns normally whatever its loop does: an exception that leaves the loop is
  logged as a cycle error and goes no further, and \<^verbatim>\<open>close\<close> runs exactly once, after
  the loop, on the normal and on the exceptional path (an exception of
  \<^verbatim>\<open>driver.quit\<close> is logged inside \<^verbatim>\<open>close\<close>). When Chrome does not start, the
  exception is logged and leaves \<^verbatim>\<open>check_influencers\<close>, and \<^verbatim>\<open>close\<close> is not
  called at all.
\<close>

theorem cycle_closes_once:
  "(chrome w = None \<longrightarrow>
      cycle_frame w loop =
        ([Log INFO ''Starting monitoring cycle'', DriverInit, Log INFO ''WebDriver initialized''] @
         events loop @
         (case outcome loop of Inl e \<Rightarrow> [Log ERROR ''Cycle error''] | Inr u \<Rightarrow> []) @
         [DriverQuit] @
         (case quit w of
            None \<Rightarrow> [Log DEBUG ''WebDriver closed'']
          | Some e \<Rightarrow> [Log ERROR ''Close error'']) @
         [Log INFO ''Monitoring complete''],
         Inr ())) \<and>
   (chrome w = None \<and> filter is_DriverQuit (events loop) = [] \<longrightarrow>
      outcome (cycle_frame w loop) = Inr () \<and>
      length (filter is_DriverQuit (events (cycle_frame w loop))) = 1) \<and>
   (chrome w = None \<longrightarrow>
      outcome (run_cycle accounts w) = Inr () \<and>
      length (filter is_DriverQuit (events (run_cycle accounts w))) = 1) \<and>
   (chrome w = None \<longrightarrow>
      outcome (check_influencers w) = Inr () \<and>
      length (filter is_DriverQuit (events (check_influencers w))) = 1) \<and>
   (\<forall>e. chrome w = Some e \<longrightarrow>
      cycle_frame w loop =
        ([Log INFO ''Starting monitoring cycle'', DriverInit, Log ERROR ''WebDriver init failed''],
         Inl e) \<and>
      check_influencers w =
        ([Log INFO ''Starting monitoring cycle'', DriverInit, Log ERROR ''WebDriver init failed''],
         Inl e))"
proof (intro conjI allI impI)
  assume "chrome w = None"
  then show "cycle_frame w loop =
        ([Log INFO ''Starting monitoring cycle'', DriverInit, Log INFO ''WebDriver initialized''] @
         events loop @
         (case outcome loop of Inl e \<Rightarrow> [Log ERROR ''Cycle error''] | Inr u \<Rightarrow> []) @
         [DriverQuit] @
         (case quit w of
            None \<Rightarrow> [Log DEBUG ''WebDriver closed'']
          | Some e \<Rightarrow> [Log ERROR ''Close error'']) @
         [Log INFO ''Monitoring complete''],
         Inr ())"
    by (rule cycle_frame_runs)
next
  assume a: "chrome w = None \<and> filter is_DriverQuit (events loop) = []"
  then show "outcome (cycle_frame w loop) = Inr ()"
    by (simp add: cycle_frame_runs)
  from a show "length (filter is_DriverQuit (events (cycle_frame w loop))) = 1"
    by (simp add: cycle_frame_runs split: sum.splits option.splits)
next
  assume a: "chrome w = None"
  then show "outcome (run_cycle accounts w) = Inr ()"
    by (simp add: run_cycle_def cycle_frame_runs)
  from a show "length (filter is_DriverQuit (events (run_cycle accounts w))) = 1"
    by (simp add: run_cycle_def cycle_frame_runs split: sum.splits option.splits)
next
  assume a: "chrome w = None"
  then show "outcome (check_influencers w) = Inr ()"
    by (simp add: check_influencers_def run_cycle_def cycle_frame_runs)
  from a show "length (filter is_DriverQuit (events (check_influencers w))) = 1"
    by (simp add: check_influencers_def run_cycle_def cycle_frame_runs
        split: sum.splits option.splits)
next
  fix e assume a: "chrome w = Some e"
  then show "cycle_frame w loop =
        ([Log INFO ''Starting monitoring cycle'', DriverInit, Log ERROR ''WebDriver init failed''],
         Inl e)"
    by (rule cycle_frame_fails)
  from a show "check_influencers w =
        ([Log INFO ''Starting monitoring cycle'', DriverInit, Log ERROR ''WebDriver init failed''],
         Inl e)"
    by (simp add: check_influencers_def run_cycle_def cycle_frame_fails)
qed

theorem cycle_closes_once_witness:
  "outcome (check_influencers (example_world None (broken WebDriverException) every_item_yes)) =
     Inr () \<and>
   length (filter is_DriverQuit
     (events (check_influencers (example_world None (broken WebDriverException) every_item_yes)))) =
     1 \<and>
   cycle_frame (example_world None (broken WebDriverException) every_item_yes)
     (raise RuntimeError) =
     ([Log INFO ''Starting monitoring cycle'', DriverInit, Log INFO ''WebDriver initialized'',
       Log ERROR ''Cycle error'', DriverQuit, Log DEBUG ''WebDriver closed'',
       Log INFO ''Monitoring complete''], Inr ()) \<and>
   check_influencers (example_world (Some WebDriverException) (showing []) every_item_yes) =
     ([Log INFO ''Starting monitoring cycle'', DriverInit, Log ERROR ''WebDriver init failed''],
      Inl WebDriverException)"
proof -
  have 1: "outcome (check_influencers
        (example_world None (broken WebDriverException) every_item_yes)) = Inr () \<and>
      length (filter is_DriverQuit (events (check_influencers
        (example_world None (broken WebDriverException) every_item_yes)))) = 1"
    using cycle_closes_once
      [of "example_world None (broken WebDriverException) every_item_yes" "ret ()" "[]"]
    by simp
  have 2: "cycle_frame (example_world None (broken WebDriverException) every_item_yes)
     (raise RuntimeError) =
     ([Log INFO ''Starting monitoring cycle'', DriverInit, Log INFO ''WebDriver initialized'',
       Log ERROR ''Cycle error'', DriverQuit, Log DEBUG ''WebDriver closed'',
       Log INFO ''Monitoring complete''], Inr ())"
    using cycle_closes_once
      [of "example_world None (broken WebDriverException) every_item_yes" "raise RuntimeError" "[]"]
    by (simp add: raise_def)
  have 3: "check_influencers
      (example_world (Some WebDriverException) (showing []) every_item_yes) =
     ([Log INFO ''Starting monitoring cycle'', DriverInit, Log ERROR ''WebDriver init failed''],
      Inl WebDriverException)"
    using cycle_closes_once
      [of "example_world (Some WebDriverException) (showing []) every_item_yes" "ret ()" "[]"]
    by simp
  from 1 2 3 show ?thesis by simp
qed

text \<open>Against the claim as stated: when Chrome does not start, the exception reaches the
  caller of \<^verbatim>\<open>check_influencers\<close> and \<^verbatim>\<open>driver.quit\<close> is never called.\<close>

theorem init_failure_counterexample:
  "outcome (check_influencers
      (example_world (Some WebDriverException) (showing []) every_item_yes)) =
     Inl WebDriverException \<and>
   filter is_DriverQuit (events (check_influencers
      (example_world (Some WebDriverException) (showing []) every_item_yes))) = []"
  by (simp add: check_influencers_def run_cycle_def
      cycle_frame_fails [of _ WebDriverException])

end
